theory Spec2Isabelle
  imports Complex_Main "HOL-Library.Word"
begin

section \<open>Values shared with the Cruise Control client\<close>

text \<open>
  The scaler of \<^verbatim>\<open>pkg/scale\<close> talks to Cruise Control through a client library.  The
  library is not part of this package: its calls are parameters of the model (record
  \<open>Client\<close> below), and each call the scaler makes is recorded as an \<open>event\<close>, next to
  the lines it writes to its logger.
\<close>

type_synonym int32 = "32 word"

text \<open>The broker states re-exported at the top of the package.\<close>

datatype KafkaBrokerState =
    KafkaBrokerAlive
  | KafkaBrokerDead
  | KafkaBrokerNew
  | KafkaBrokerDemoted
  | KafkaBrokerBadDisks

subsection \<open>Go errors\<close>

text \<open>
  A Go \<^verbatim>\<open>error\<close> is a value with a method \<^verbatim>\<open>Error() string\<close>.  \<open>errors_New text\<close> is the
  value \<^verbatim>\<open>errors.New(text)\<close>, and stands for any error whose description is \<open>text\<close>;
  \<open>NumError f num err\<close> is \<^verbatim>\<open>&strconv.NumError{Func: f, Num: num, Err: err}\<close>.  The
  description of a \<open>NumError\<close> quotes \<open>num\<close> with \<^verbatim>\<open>strconv.Quote\<close>; the package never
  formats one, and \<open>Error\<close> is left open there.
\<close>

datatype go_error =
    errors_New string
  | NumError string string go_error

fun Error :: "go_error \<Rightarrow> string" where
  "Error (errors_New text) = text"

text \<open>\<^verbatim>\<open>fmt.Sprintf("%v", err)\<close> for a non-nil error is its description.\<close>

definition Sprintf_v :: "go_error \<Rightarrow> string" where
  "Sprintf_v err = Error err"

definition ErrSyntax :: go_error where
  "ErrSyntax = errors_New ''invalid syntax''"

definition ErrRange :: go_error where
  "ErrRange = errors_New ''value out of range''"

subsection \<open>strconv\<close>

text \<open>
  \<^verbatim>\<open>strconv.Itoa\<close>: the decimal digits of an \<^verbatim>\<open>int\<close>, with a leading minus sign for a
  negative value.
\<close>

definition digit_char :: "nat \<Rightarrow> char" where
  "digit_char d = ''0123456789'' ! d"

function digits :: "nat \<Rightarrow> string" where
  "digits n = (if n < 10 then [digit_char n] else digits (n div 10) @ [digit_char (n mod 10)])"
  by pat_completeness auto
termination
  by (relation "measure (\<lambda>n. n)") auto

declare digits.simps [simp del]

definition Itoa :: "int \<Rightarrow> string" where
  "Itoa i = (if i < 0 then CHR ''-'' # digits (nat (- i)) else digits (nat i))"

text \<open>
  \<^verbatim>\<open>strconv.Atoi\<close> on a 64-bit platform: an optional sign followed by at least one
  decimal digit, with a value that fits \<^verbatim>\<open>int\<close>.  The digits are read from the left as
  an unsigned 64-bit number: the first character that is not a digit is a syntax error,
  and a prefix that no longer fits 64 bits is a range error, whichever comes first.  A
  number that was read in full is then checked against the range of \<^verbatim>\<open>int\<close>.
\<close>

definition is_digit :: "char \<Rightarrow> bool" where
  "is_digit c = ((48 :: nat) \<le> of_char c \<and> of_char c \<le> (57 :: nat))"

fun ParseUint_loop :: "nat \<Rightarrow> string \<Rightarrow> go_error + nat" where
  "ParseUint_loop n [] = Inr n"
| "ParseUint_loop n (c # cs) =
     (if \<not> is_digit c then Inl ErrSyntax
      else if 2 ^ 64 - 1 < n * 10 + (of_char c - (48 :: nat)) then Inl ErrRange
      else ParseUint_loop (n * 10 + (of_char c - (48 :: nat))) cs)"

definition Atoi :: "string \<Rightarrow> go_error + int" where
  "Atoi s =
     (let neg = (s \<noteq> [] \<and> hd s = CHR ''-'');
          ds = (if s \<noteq> [] \<and> (hd s = CHR ''-'' \<or> hd s = CHR ''+'') then tl s else s)
      in if ds = [] then Inl (NumError ''Atoi'' s ErrSyntax)
         else
           (case ParseUint_loop 0 ds of
              Inl err \<Rightarrow> Inl (NumError ''Atoi'' s err)
            | Inr un \<Rightarrow>
                if (\<not> neg \<and> 2 ^ 63 \<le> un) \<or> (neg \<and> 2 ^ 63 < un)
                then Inl (NumError ''Atoi'' s ErrRange)
                else Inr (if neg then - int un else int un)))"

subsection \<open>Responses and requests of the client\<close>

text \<open>
  The response and request types are declared by the client library.  The records below
  hold the fields that the scaler reads and writes; the \<^verbatim>\<open>.Result\<close> wrapper of a response
  is flattened.
\<close>

datatype MonitorStateType = MonitorStateRunning | MonitorStateOther string
datatype ExecutorStateType = ExecutorStateTypeNoTaskInProgress | ExecutorStateOther string
datatype GoalReadinessStatus = GoalReadinessStatusReady | GoalReadinessStatusNotReady

record GoalReadiness =
  GoalReadiness_Name :: string
  GoalReadiness_Status :: GoalReadinessStatus

text \<open>
  Modelled from the spec: the monitored-window count is a count and the monitoring
  coverage a percentage; \<open>Status\<close> only copies both.
\<close>

record MonitorState =
  MonitorState_State :: MonitorStateType
  NumMonitoredWindows :: nat
  MonitoringCoveragePercentage :: real

record ExecutorState =
  ExecutorState_State :: ExecutorStateType

record AnalyzerState =
  IsProposalReady :: bool
  GoalReadiness :: "GoalReadiness list"

record StateResponse =
  MonitorState :: MonitorState
  ExecutorState :: ExecutorState
  AnalyzerState :: AnalyzerState

record DiskUsage =
  Dead :: bool

text \<open>
  The per-disk replica count is a signed number, like the replica counts of the cluster
  state: the scaler tests it with \<^verbatim>\<open><= 0\<close>.  \<open>DiskState\<close> is keyed by the name of the
  disk.
\<close>

record DiskStats =
  DiskMB :: DiskUsage
  NumReplicas :: int32

record BrokerLoadStats =
  Broker :: int32
  BrokerState :: KafkaBrokerState
  DiskState :: "(string \<times> DiskStats) list"

record KafkaClusterLoadResponse =
  Brokers :: "BrokerLoadStats list"

text \<open>
  \<open>ReplicaCountByBrokerID\<close> is a \<^verbatim>\<open>map[string]int32\<close> that is only looked up.  The two
  log directory maps are iterated, so they are association lists: the order of the
  entries is the order in which \<^verbatim>\<open>range\<close> visits the map.
\<close>

record KafkaClusterStateResponse =
  ReplicaCountByBrokerID :: "string \<rightharpoonup> int32"
  OnlineLogDirsByBrokerID :: "(string \<times> string list) list"
  OfflineLogDirsByBrokerID :: "(string \<times> string list) list"

datatype ProposalDataSource = ProposalDataSourceValidWindows | ProposalDataSourceValidPartitions

record ProposalRequest =
  AllowCapacityEstimation :: bool
  DataFrom :: ProposalDataSource
  UseReadyDefaultGoals :: bool

text \<open>\<^verbatim>\<open>api.AddBrokerRequest\<close> and \<^verbatim>\<open>api.RemoveBrokerRequest\<close> carry the same fields.\<close>

record BrokerRequest = ProposalRequest +
  BrokerIDs :: "int32 list"

type_synonym AddBrokerRequest = BrokerRequest
type_synonym RemoveBrokerRequest = BrokerRequest

record RebalanceRequest = ProposalRequest +
  DestinationBrokerIDs :: "int32 list"
  ExcludeRecentlyRemovedBrokers :: bool

text \<open>
  What a submission returns: the fields \<^verbatim>\<open>TaskID\<close> and \<^verbatim>\<open>Date\<close> of the response.  The
  scaler reads both on the error path as well, so a response value is there on both
  paths; \<open>zero_response\<close> is the one whose fields were never filled.
\<close>

record TaskResponse =
  Resp_TaskID :: string
  Resp_Date :: string

definition zero_response :: TaskResponse where
  "zero_response = \<lparr>Resp_TaskID = [], Resp_Date = []\<rparr>"

text \<open>
  The client.  \<open>client_State\<close> takes the \<^verbatim>\<open>Verbose\<close> field, the one field of the default
  state request that the scaler sets; the cluster load and cluster state requests are
  the defaults of the library.  Every call returns the pair \<^verbatim>\<open>(resp, err)\<close>, with
  \<open>None\<close> for a nil error.
\<close>

record Client =
  client_State :: "bool \<Rightarrow> StateResponse \<times> go_error option"
  client_KafkaClusterLoad :: "KafkaClusterLoadResponse \<times> go_error option"
  client_KafkaClusterState :: "KafkaClusterStateResponse \<times> go_error option"
  client_AddBroker :: "AddBrokerRequest \<Rightarrow> TaskResponse \<times> go_error option"
  client_RemoveBroker :: "RemoveBrokerRequest \<Rightarrow> TaskResponse \<times> go_error option"
  client_Rebalance :: "RebalanceRequest \<Rightarrow> TaskResponse \<times> go_error option"

subsection \<open>Effects\<close>

datatype logval =
    LStr string
  | LStrs "string list"
  | LInt32 int32
  | LState KafkaBrokerState

datatype event =
    LogInfo string "(string \<times> logval) list"
  | LogError "go_error option" string "(string \<times> logval) list"
  | CallState bool
  | CallKafkaClusterLoad
  | CallKafkaClusterState
  | CallAddBroker AddBrokerRequest
  | CallRemoveBroker RemoveBrokerRequest
  | CallRebalance RebalanceRequest

fun is_submission :: "event \<Rightarrow> bool" where
  "is_submission (CallAddBroker _) = True"
| "is_submission (CallRemoveBroker _) = True"
| "is_submission (CallRebalance _) = True"
| "is_submission _ = False"

definition submissions :: "event list \<Rightarrow> event list" where
  "submissions evs = filter is_submission evs"

section \<open>Types of the package\<close>

text \<open>
  Modelled from the spec: the lifecycle state of a task result (Active, Completed,
  CompletedWithError), declared in \<^verbatim>\<open>api/v1beta1\<close>; the fields of \<^verbatim>\<open>Result\<close> and of
  \<^verbatim>\<open>CruiseControlStatus\<close> are the ones the scaler assigns.  A field that a Go struct
  literal leaves out has its zero value.
\<close>

datatype CruiseControlUserTaskState =
    CruiseControlTaskActive
  | CruiseControlTaskCompleted
  | CruiseControlTaskCompletedWithError

record Result =
  TaskID :: string
  StartedAt :: string
  State :: CruiseControlUserTaskState
  Err :: string

record CruiseControlStatus =
  MonitorReady :: bool
  ExecutorReady :: bool
  AnalyzerReady :: bool
  ProposalReady :: bool
  GoalsReady :: bool
  MonitoredWindows :: nat
  MonitoringCoverage :: real

datatype LogDirState = LogDirStateOnline | LogDirStateOffline

section \<open>Helpers of the package\<close>

text \<open>
  Modelled from the spec: \<^verbatim>\<open>kafkaBrokerStatesToMap\<close> and \<^verbatim>\<open>stringSliceToMap\<close> build the set
  of their arguments as a map (``build a set first''), and \<^verbatim>\<open>brokerIDsFromStringSlice\<close>
  converts every ID to its numeric handle and fails on the first one that is not
  numeric.  The three are defined in another file of the package.
\<close>

fun kafkaBrokerStatesToMap :: "KafkaBrokerState list \<Rightarrow> (KafkaBrokerState \<rightharpoonup> bool)" where
  "kafkaBrokerStatesToMap [] = Map.empty"
| "kafkaBrokerStatesToMap (state # states) = (kafkaBrokerStatesToMap states)(state \<mapsto> True)"

fun stringSliceToMap :: "string list \<Rightarrow> (string \<rightharpoonup> bool)" where
  "stringSliceToMap [] = Map.empty"
| "stringSliceToMap (s # ss) = (stringSliceToMap ss)(s \<mapsto> True)"

fun brokerIDsFromStringSlice :: "string list \<Rightarrow> int32 list \<times> go_error option" where
  "brokerIDsFromStringSlice [] = ([], None)"
| "brokerIDsFromStringSlice (brokerID # ids) =
     (case Atoi brokerID of
        Inl err \<Rightarrow> ([], Some err)
      | Inr bid \<Rightarrow>
          (case brokerIDsFromStringSlice ids of
             (_, Some err) \<Rightarrow> ([], Some err)
           | (brokers, None) \<Rightarrow> (word_of_int bid # brokers, None)))"

section \<open>The scaler\<close>

subsection \<open>BrokersWithState\<close>

fun BrokersWithState_loop ::
  "(KafkaBrokerState \<rightharpoonup> bool) \<Rightarrow> BrokerLoadStats list \<Rightarrow> string list \<Rightarrow> event list
     \<Rightarrow> string list \<times> event list" where
  "BrokersWithState_loop statesMap [] brokersIDs evs = (brokersIDs, evs)"
| "BrokersWithState_loop statesMap (broker # rest) brokersIDs evs =
     (case statesMap (BrokerState broker) of
        Some _ \<Rightarrow>
          (let brokerID = Itoa (sint (Broker broker))
           in BrokersWithState_loop statesMap rest (brokersIDs @ [brokerID])
                (evs @ [LogInfo ''Kafka broker is available in Cruise Control''
                          [(''broker id'', LStr brokerID), (''state'', LState (BrokerState broker))]]))
      | None \<Rightarrow> BrokersWithState_loop statesMap rest brokersIDs evs)"

definition BrokersWithState ::
  "Client \<Rightarrow> KafkaBrokerState list \<Rightarrow> (string list \<times> go_error option) \<times> event list" where
  "BrokersWithState cc states =
     (case client_KafkaClusterLoad cc of
        (resp, Some err) \<Rightarrow>
          (([], Some err),
           [CallKafkaClusterLoad,
            LogError (Some err) ''getting Kafka cluster load from Cruise Control returned an error'' []])
      | (resp, None) \<Rightarrow>
          (let statesMap = kafkaBrokerStatesToMap states;
               (brokersIDs, evs) =
                 BrokersWithState_loop statesMap (Brokers resp) [] [CallKafkaClusterLoad]
           in ((brokersIDs, None), evs)))"

subsection \<open>Status\<close>

fun Status_loop :: "GoalReadiness list \<Rightarrow> bool \<Rightarrow> bool" where
  "Status_loop [] goalsReady = goalsReady"
| "Status_loop (goal # rest) goalsReady =
     (if GoalReadiness_Status goal \<noteq> GoalReadinessStatusReady then False
      else Status_loop rest goalsReady)"

definition Status :: "Client \<Rightarrow> CruiseControlStatus \<times> event list" where
  "Status cc =
     (case client_State cc True of
        (resp, Some err) \<Rightarrow>
          (\<lparr>MonitorReady = False, ExecutorReady = False, AnalyzerReady = False,
            ProposalReady = False, GoalsReady = False, MonitoredWindows = 0,
            MonitoringCoverage = 0\<rparr>,
           [CallState True, LogError (Some err) ''failed to get Cruise Control state'' []])
      | (resp, None) \<Rightarrow>
          (let goalsReady =
                 (if length (GoalReadiness (AnalyzerState resp)) > 0
                  then Status_loop (GoalReadiness (AnalyzerState resp)) True
                  else True)
           in (\<lparr>MonitorReady = (MonitorState_State (MonitorState resp) = MonitorStateRunning),
                ExecutorReady =
                  (ExecutorState_State (ExecutorState resp) = ExecutorStateTypeNoTaskInProgress),
                AnalyzerReady = (IsProposalReady (AnalyzerState resp) \<and> goalsReady),
                ProposalReady = IsProposalReady (AnalyzerState resp),
                GoalsReady = goalsReady,
                MonitoredWindows = NumMonitoredWindows (MonitorState resp),
                MonitoringCoverage = MonitoringCoveragePercentage (MonitorState resp)\<rparr>,
               [CallState True])))"

subsection \<open>AddBrokers\<close>

fun AddBrokers_loop :: "(string \<rightharpoonup> bool) \<Rightarrow> string list \<Rightarrow> string list \<Rightarrow> string list" where
  "AddBrokers_loop availableBrokersMap [] unavailableBrokerIDs = unavailableBrokerIDs"
| "AddBrokers_loop availableBrokersMap (brokerID # rest) unavailableBrokerIDs =
     (case availableBrokersMap brokerID of
        None \<Rightarrow> AddBrokers_loop availableBrokersMap rest (unavailableBrokerIDs @ [brokerID])
      | Some _ \<Rightarrow> AddBrokers_loop availableBrokersMap rest unavailableBrokerIDs)"

definition AddBrokers ::
  "Client \<Rightarrow> string list \<Rightarrow> (Result option \<times> go_error option) \<times> event list" where
  "AddBrokers cc brokerIDs =
     (if length brokerIDs = 0
      then ((None, Some (errors_New ''no broker id(s) provided for add brokers request'')), [])
      else
        (case brokerIDsFromStringSlice brokerIDs of
           (_, Some err) \<Rightarrow>
             ((None, Some err),
              [LogError (Some err) ''failed to cast broker IDs from string slice'' []])
         | (brokersToAdd, None) \<Rightarrow>
             (case BrokersWithState cc [KafkaBrokerAlive, KafkaBrokerNew] of
                ((_, Some err), evs) \<Rightarrow>
                  ((None, Some err),
                   evs @ [LogError (Some err)
                            ''failed to retrieve list of available brokers from Cruise Control'' []])
              | ((availableBrokers, None), evs) \<Rightarrow>
                  (let availableBrokersMap = stringSliceToMap availableBrokers;
                       unavailableBrokerIDs = AddBrokers_loop availableBrokersMap brokerIDs []
                   in if length unavailableBrokerIDs > 0
                      then
                        ((None,
                          Some (errors_New
                            ''not all brokers are available which are meant to be added to the Kafka cluster'')),
                         evs @ [LogError None ''there are offline brokers to be added''
                                  [(''broker(s)'', LStrs unavailableBrokerIDs)]])
                      else
                        (let addBrokerReq =
                               \<lparr>AllowCapacityEstimation = True,
                                DataFrom = ProposalDataSourceValidWindows,
                                UseReadyDefaultGoals = True,
                                BrokerIDs = brokersToAdd\<rparr>
                         in (case client_AddBroker cc addBrokerReq of
                               (addBrokerResp, Some err) \<Rightarrow>
                                 ((Some \<lparr>TaskID = Resp_TaskID addBrokerResp,
                                         StartedAt = Resp_Date addBrokerResp,
                                         State = CruiseControlTaskCompletedWithError,
                                         Err = Sprintf_v err\<rparr>,
                                   Some err),
                                  evs @ [CallAddBroker addBrokerReq])
                             | (addBrokerResp, None) \<Rightarrow>
                                 ((Some \<lparr>TaskID = Resp_TaskID addBrokerResp,
                                         StartedAt = Resp_Date addBrokerResp,
                                         State = CruiseControlTaskActive,
                                         Err = []\<rparr>,
                                   None),
                                  evs @ [CallAddBroker addBrokerReq])))))))"

subsection \<open>RemoveBrokers\<close>

text \<open>
  The loop over the requested IDs.  A lookup of a missing key yields the zero replica
  count; the loop returns early, with the error, at the first eligible ID that
  \<^verbatim>\<open>strconv.Atoi\<close> rejects.  \<^verbatim>\<open>int32(bID)\<close> keeps the low 32 bits.
\<close>

fun RemoveBrokers_loop ::
  "(string \<rightharpoonup> int32) \<Rightarrow> string list \<Rightarrow> int32 list \<Rightarrow> event list
     \<Rightarrow> (int32 list \<times> go_error option) \<times> event list" where
  "RemoveBrokers_loop replicaCount [] brokersToRemove evs = ((brokersToRemove, None), evs)"
| "RemoveBrokers_loop replicaCount (brokerID # rest) brokersToRemove evs =
     (let ok = (replicaCount brokerID \<noteq> None);
          replicas = (case replicaCount brokerID of None \<Rightarrow> 0 | Some n \<Rightarrow> n)
      in if \<not> ok \<or> sint replicas \<le> 0
         then RemoveBrokers_loop replicaCount rest brokersToRemove
                (evs @ [LogInfo
                   ''removing broker is skipped as it is either not available or has 0 partition replicas''
                   [(''broker_id'', LStr brokerID), (''replicas'', LInt32 replicas)]])
         else
           (case Atoi brokerID of
              Inl err \<Rightarrow>
                (([], Some err),
                 evs @ [LogError (Some err) ''failed to cast broker ID from string to integer''
                          [(''broker_id'', LStr brokerID)]])
            | Inr bID \<Rightarrow>
                RemoveBrokers_loop replicaCount rest (brokersToRemove @ [word_of_int bID]) evs))"

definition RemoveBrokers ::
  "Client \<Rightarrow> string list \<Rightarrow> (Result option \<times> go_error option) \<times> event list" where
  "RemoveBrokers cc brokerIDs =
     (if length brokerIDs = 0
      then ((None, Some (errors_New ''no broker id(s) provided for remove brokers request'')), [])
      else
        (case client_KafkaClusterState cc of
           (clusterStateResp, Some err) \<Rightarrow> ((None, Some err), [CallKafkaClusterState])
         | (clusterStateResp, None) \<Rightarrow>
             (case RemoveBrokers_loop (ReplicaCountByBrokerID clusterStateResp) brokerIDs []
                     [CallKafkaClusterState] of
                ((_, Some err), evs) \<Rightarrow> ((None, Some err), evs)
              | ((brokersToRemove, None), evs) \<Rightarrow>
                  (if length brokersToRemove = 0
                   then
                     ((Some \<lparr>TaskID = [], StartedAt = [], State = CruiseControlTaskCompleted,
                             Err = []\<rparr>,
                       None),
                      evs)
                   else
                     (let rmBrokerReq =
                            \<lparr>AllowCapacityEstimation = True,
                             DataFrom = ProposalDataSourceValidWindows,
                             UseReadyDefaultGoals = True,
                             BrokerIDs = brokersToRemove\<rparr>
                      in (case client_RemoveBroker cc rmBrokerReq of
                            (rmBrokerResp, Some err) \<Rightarrow>
                              ((Some \<lparr>TaskID = Resp_TaskID rmBrokerResp,
                                      StartedAt = Resp_Date rmBrokerResp,
                                      State = CruiseControlTaskCompletedWithError,
                                      Err = Sprintf_v err\<rparr>,
                                Some err),
                               evs @ [CallRemoveBroker rmBrokerReq])
                          | (rmBrokerResp, None) \<Rightarrow>
                              ((Some \<lparr>TaskID = Resp_TaskID rmBrokerResp,
                                      StartedAt = Resp_Date rmBrokerResp,
                                      State = CruiseControlTaskActive,
                                      Err = []\<rparr>,
                                None),
                               evs @ [CallRemoveBroker rmBrokerReq])))))))"

subsection \<open>RebalanceDisks\<close>

fun RebalanceDisks_disks :: "int32 \<Rightarrow> (string \<times> DiskStats) list \<Rightarrow> int32 list \<Rightarrow> int32 list" where
  "RebalanceDisks_disks broker [] brokersWithEmptyDisks = brokersWithEmptyDisks"
| "RebalanceDisks_disks broker ((disk, diskState) # rest) brokersWithEmptyDisks =
     (if sint (NumReplicas diskState) \<le> 0 \<and> \<not> Dead (DiskMB diskState)
      then RebalanceDisks_disks broker rest (brokersWithEmptyDisks @ [broker])
      else RebalanceDisks_disks broker rest brokersWithEmptyDisks)"

fun RebalanceDisks_loop ::
  "(string \<rightharpoonup> bool) \<Rightarrow> BrokerLoadStats list \<Rightarrow> int32 list \<Rightarrow> int32 list" where
  "RebalanceDisks_loop brokerIDsMap [] brokersWithEmptyDisks = brokersWithEmptyDisks"
| "RebalanceDisks_loop brokerIDsMap (brokerStat # rest) brokersWithEmptyDisks =
     (case brokerIDsMap (Itoa (sint (Broker brokerStat))) of
        None \<Rightarrow> RebalanceDisks_loop brokerIDsMap rest brokersWithEmptyDisks
      | Some _ \<Rightarrow>
          RebalanceDisks_loop brokerIDsMap rest
            (RebalanceDisks_disks (Broker brokerStat) (DiskState brokerStat)
               brokersWithEmptyDisks))"

definition RebalanceDisks ::
  "Client \<Rightarrow> string list \<Rightarrow> (Result option \<times> go_error option) \<times> event list" where
  "RebalanceDisks cc brokerIDs =
     (case client_KafkaClusterLoad cc of
        (clusterLoadResp, Some err) \<Rightarrow> ((None, Some err), [CallKafkaClusterLoad])
      | (clusterLoadResp, None) \<Rightarrow>
          (let brokerIDsMap = stringSliceToMap brokerIDs;
               brokersWithEmptyDisks =
                 RebalanceDisks_loop brokerIDsMap (Brokers clusterLoadResp) []
           in if length brokersWithEmptyDisks = 0
              then
                ((Some \<lparr>TaskID = [], StartedAt = [], State = CruiseControlTaskCompleted,
                        Err = []\<rparr>,
                  None),
                 [CallKafkaClusterLoad])
              else
                (let rebalanceReq =
                       \<lparr>AllowCapacityEstimation = True,
                        DataFrom = ProposalDataSourceValidWindows,
                        UseReadyDefaultGoals = True,
                        DestinationBrokerIDs = brokersWithEmptyDisks,
                        ExcludeRecentlyRemovedBrokers = True\<rparr>
                 in (case client_Rebalance cc rebalanceReq of
                       (rebalanceResp, Some err) \<Rightarrow>
                         ((Some \<lparr>TaskID = Resp_TaskID rebalanceResp,
                                 StartedAt = Resp_Date rebalanceResp,
                                 State = CruiseControlTaskCompletedWithError,
                                 Err = Sprintf_v err\<rparr>,
                           Some err),
                          [CallKafkaClusterLoad, CallRebalance rebalanceReq])
                     | (rebalanceResp, None) \<Rightarrow>
                         ((Some \<lparr>TaskID = Resp_TaskID rebalanceResp,
                                 StartedAt = Resp_Date rebalanceResp,
                                 State = CruiseControlTaskActive,
                                 Err = []\<rparr>,
                           None),
                          [CallKafkaClusterLoad, CallRebalance rebalanceReq])))))"

subsection \<open>LogDirsByBroker\<close>

definition newLogDirsByBroker :: "LogDirState \<rightharpoonup> string list" where
  "newLogDirsByBroker = [LogDirStateOnline \<mapsto> [], LogDirStateOffline \<mapsto> []]"

text \<open>
  The two loops of \<^verbatim>\<open>LogDirsByBroker\<close> differ in the bucket they assign only: \<open>state\<close> is
  that bucket.  An inner map that was stored is never nil, so the test
  \<^verbatim>\<open>!ok || logDirsByBroker == nil\<close> is the test for a missing key.
\<close>

fun LogDirsByBroker_loop ::
  "LogDirState \<Rightarrow> (string \<times> string list) list \<Rightarrow> (string \<rightharpoonup> (LogDirState \<rightharpoonup> string list))
     \<Rightarrow> (string \<rightharpoonup> (LogDirState \<rightharpoonup> string list))" where
  "LogDirsByBroker_loop state [] logDirsByBrokers = logDirsByBrokers"
| "LogDirsByBroker_loop state ((broker, logDirs) # rest) logDirsByBrokers =
     (let logDirsByBroker =
            (case logDirsByBrokers broker of
               None \<Rightarrow> newLogDirsByBroker
             | Some m \<Rightarrow> m)
      in LogDirsByBroker_loop state rest
           (logDirsByBrokers(broker \<mapsto> logDirsByBroker(state \<mapsto> logDirs))))"

definition LogDirsByBroker ::
  "Client \<Rightarrow> ((string \<rightharpoonup> (LogDirState \<rightharpoonup> string list)) option \<times> go_error option) \<times> event list" where
  "LogDirsByBroker cc =
     (case client_KafkaClusterState cc of
        (resp, Some err) \<Rightarrow>
          ((None, Some err),
           [CallKafkaClusterState,
            LogError (Some err) ''getting Kafka cluster state from Cruise Control returned an error'' []])
      | (resp, None) \<Rightarrow>
          (let logDirsByBrokers =
                 LogDirsByBroker_loop LogDirStateOffline (OfflineLogDirsByBrokerID resp)
                   (LogDirsByBroker_loop LogDirStateOnline (OnlineLogDirsByBrokerID resp) Map.empty)
           in ((Some logDirsByBrokers, None), [CallKafkaClusterState])))"

section \<open>Vocabulary of the properties\<close>

text \<open>
  The submissions among the recorded events are the calls that change the cluster;
  \<open>client_answer\<close> is what the client returned for one of them.
\<close>

fun client_answer :: "Client \<Rightarrow> event \<Rightarrow> (TaskResponse \<times> go_error option) option" where
  "client_answer cc (CallAddBroker req) = Some (client_AddBroker cc req)"
| "client_answer cc (CallRemoveBroker req) = Some (client_RemoveBroker cc req)"
| "client_answer cc (CallRebalance req) = Some (client_Rebalance cc req)"
| "client_answer cc _ = None"

text \<open>
  The result that the three operations build from the response and the error of a
  submission, and the result of an operation that is skipped.
\<close>

definition submitted_result :: "TaskResponse \<Rightarrow> go_error option \<Rightarrow> Result" where
  "submitted_result resp err =
     \<lparr>TaskID = Resp_TaskID resp, StartedAt = Resp_Date resp,
      State = (case err of None \<Rightarrow> CruiseControlTaskActive | Some _ \<Rightarrow> CruiseControlTaskCompletedWithError),
      Err = (case err of None \<Rightarrow> [] | Some e \<Rightarrow> Error e)\<rparr>"

definition skipped_result :: Result where
  "skipped_result = \<lparr>TaskID = [], StartedAt = [], State = CruiseControlTaskCompleted, Err = []\<rparr>"

text \<open>
  The three ways in which an operation that returns a task result ends: without a
  result, with an error and without a submission; skipped, with the completed result and
  without a submission; or with exactly one submission and the result built from the
  response and the error of that submission.
\<close>

definition settled :: "Client \<Rightarrow> (Result option \<times> go_error option) \<times> event list \<Rightarrow> bool" where
  "settled cc out =
     ((fst (fst out) = None \<and> snd (fst out) \<noteq> None \<and> submissions (snd out) = [])
    \<or> (fst out = (Some skipped_result, None) \<and> submissions (snd out) = [])
    \<or> (\<exists>s resp e. submissions (snd out) = [s] \<and> client_answer cc s = Some (resp, e)
          \<and> fst out = (Some (submitted_result resp e), e)))"

text \<open>
  A disk qualifies for a rebalance when its reported replica count is at most zero and
  it is not marked dead; a broker of the report is requested when its ID is one of the
  requested strings; a broker is eligible for removal when the report holds a positive
  replica count for its ID.
\<close>

definition disk_qualifies :: "DiskStats \<Rightarrow> bool" where
  "disk_qualifies d = (sint (NumReplicas d) \<le> 0 \<and> \<not> Dead (DiskMB d))"

definition broker_requested :: "string list \<Rightarrow> BrokerLoadStats \<Rightarrow> bool" where
  "broker_requested brokerIDs b = (Itoa (sint (Broker b)) \<in> set brokerIDs)"

definition qualifying_disks :: "BrokerLoadStats \<Rightarrow> nat" where
  "qualifying_disks b = length (filter (\<lambda>(disk, d). disk_qualifies d) (DiskState b))"

definition has_replicas :: "(string \<rightharpoonup> int32) \<Rightarrow> string \<Rightarrow> bool" where
  "has_replicas replicaCount brokerID =
     (case replicaCount brokerID of None \<Rightarrow> False | Some n \<Rightarrow> 0 < sint n)"

section \<open>Example clusters\<close>

text \<open>
  A cluster with three brokers: broker 1 is alive and its disk holds replicas, broker 2
  is new and has two empty disks and one dead disk, broker 3 is dead.
\<close>

definition ex_load :: KafkaClusterLoadResponse where
  "ex_load = \<lparr>Brokers =
     [\<lparr>Broker = 1, BrokerState = KafkaBrokerAlive,
       DiskState = [(''/d0'', \<lparr>DiskMB = \<lparr>Dead = False\<rparr>, NumReplicas = 4\<rparr>)]\<rparr>,
      \<lparr>Broker = 2, BrokerState = KafkaBrokerNew,
       DiskState = [(''/d0'', \<lparr>DiskMB = \<lparr>Dead = False\<rparr>, NumReplicas = 0\<rparr>),
                    (''/d1'', \<lparr>DiskMB = \<lparr>Dead = False\<rparr>, NumReplicas = 0\<rparr>),
                    (''/d2'', \<lparr>DiskMB = \<lparr>Dead = True\<rparr>, NumReplicas = 0\<rparr>)]\<rparr>,
      \<lparr>Broker = 3, BrokerState = KafkaBrokerDead, DiskState = []\<rparr>]\<rparr>"

definition ex_state :: KafkaClusterStateResponse where
  "ex_state =
     \<lparr>ReplicaCountByBrokerID = [''5'' \<mapsto> 3, ''6'' \<mapsto> 0, ''x'' \<mapsto> 2],
      OnlineLogDirsByBrokerID = [(''1'', [''/a'']), (''2'', [''/b''])],
      OfflineLogDirsByBrokerID = [(''2'', [''/c'']), (''3'', [''/d''])]\<rparr>"

definition ex_status :: "GoalReadiness list \<Rightarrow> StateResponse" where
  "ex_status goals =
     \<lparr>MonitorState = \<lparr>MonitorState_State = MonitorStateRunning, NumMonitoredWindows = 5,
                       MonitoringCoveragePercentage = 100\<rparr>,
      ExecutorState = \<lparr>ExecutorState_State = ExecutorStateTypeNoTaskInProgress\<rparr>,
      AnalyzerState = \<lparr>IsProposalReady = True, GoalReadiness = goals\<rparr>\<rparr>"

definition ex_task :: TaskResponse where
  "ex_task = \<lparr>Resp_TaskID = ''task-1'', Resp_Date = ''Sun, 01 Nov 2026 10:00:00 GMT''\<rparr>"

text \<open>\<open>ex_ok\<close> answers every call without an error; its goal readiness list is empty.\<close>

definition ex_ok :: Client where
  "ex_ok =
     \<lparr>client_State = (\<lambda>verbose. (ex_status [], None)),
      client_KafkaClusterLoad = (ex_load, None),
      client_KafkaClusterState = (ex_state, None),
      client_AddBroker = (\<lambda>req. (ex_task, None)),
      client_RemoveBroker = (\<lambda>req. (ex_task, None)),
      client_Rebalance = (\<lambda>req. (ex_task, None))\<rparr>"

text \<open>\<open>ex_notready\<close> reports one goal that is not ready.\<close>

definition ex_notready :: Client where
  "ex_notready =
     ex_ok\<lparr>client_State := (\<lambda>verbose.
       (ex_status [\<lparr>GoalReadiness_Name = ''RackAwareGoal'',
                    GoalReadiness_Status = GoalReadinessStatusNotReady\<rparr>], None))\<rparr>"

text \<open>\<open>ex_down\<close> fails the state query.\<close>

definition ex_down :: Client where
  "ex_down = ex_ok\<lparr>client_State := (\<lambda>verbose. (ex_status [], Some (errors_New ''connection refused'')))\<rparr>"

text \<open>
  \<open>ex_fail\<close> fails every submission, the first two with a response whose fields were
  never filled; \<open>ex_blank\<close> fails the add-broker submission with an error whose
  description is empty.
\<close>

definition ex_fail :: Client where
  "ex_fail =
     ex_ok\<lparr>client_AddBroker := (\<lambda>req. (zero_response, Some (errors_New ''connection refused''))),
           client_RemoveBroker := (\<lambda>req. (zero_response, Some (errors_New ''connection refused''))),
           client_Rebalance := (\<lambda>req. (ex_task, Some (errors_New ''connection refused'')))\<rparr>"

definition ex_blank :: Client where
  "ex_blank = ex_ok\<lparr>client_AddBroker := (\<lambda>req. (zero_response, Some (errors_New [])))\<rparr>"

text \<open>
  \<open>ex_negative\<close> reports one broker whose only disk is alive and has a replica count of
  \<open>-1\<close>; \<open>ex_mixed\<close> reports one broker with three disks that are alive, two with a
  replica count of zero and one with a replica count of \<open>-1\<close>.
\<close>

definition ex_load_negative :: KafkaClusterLoadResponse where
  "ex_load_negative = \<lparr>Brokers =
     [\<lparr>Broker = 2, BrokerState = KafkaBrokerAlive,
       DiskState = [(''/d0'', \<lparr>DiskMB = \<lparr>Dead = False\<rparr>, NumReplicas = - 1\<rparr>)]\<rparr>]\<rparr>"

definition ex_negative :: Client where
  "ex_negative = ex_ok\<lparr>client_KafkaClusterLoad := (ex_load_negative, None)\<rparr>"

definition ex_load_mixed :: KafkaClusterLoadResponse where
  "ex_load_mixed = \<lparr>Brokers =
     [\<lparr>Broker = 2, BrokerState = KafkaBrokerAlive,
       DiskState = [(''/d0'', \<lparr>DiskMB = \<lparr>Dead = False\<rparr>, NumReplicas = 0\<rparr>),
                    (''/d1'', \<lparr>DiskMB = \<lparr>Dead = False\<rparr>, NumReplicas = 0\<rparr>),
                    (''/d2'', \<lparr>DiskMB = \<lparr>Dead = False\<rparr>, NumReplicas = - 1\<rparr>)]\<rparr>]\<rparr>"

definition ex_mixed :: Client where
  "ex_mixed = ex_ok\<lparr>client_KafkaClusterLoad := (ex_load_mixed, None)\<rparr>"

section \<open>Properties\<close>

subsection \<open>Helpers and loops\<close>

lemma Itoa_1: "Itoa 1 = ''1''"
  by (simp add: Itoa_def digits.simps digit_char_def)

lemma Itoa_2: "Itoa 2 = ''2''"
  by (simp add: Itoa_def digits.simps digit_char_def)

lemma Itoa_3: "Itoa 3 = ''3''"
  by (simp add: Itoa_def digits.simps digit_char_def)

lemma kafkaBrokerStatesToMap_None: "(kafkaBrokerStatesToMap S st = None) = (st \<notin> set S)"
  by (induction S) auto

lemma dom_kafkaBrokerStatesToMap: "dom (kafkaBrokerStatesToMap S) = set S"
  using kafkaBrokerStatesToMap_None [of S] by (auto simp: dom_def)

lemma stringSliceToMap_None: "(stringSliceToMap xs x = None) = (x \<notin> set xs)"
  by (induction xs) auto

lemma dom_stringSliceToMap: "dom (stringSliceToMap xs) = set xs"
  using stringSliceToMap_None [of xs] by (auto simp: dom_def)

lemma BrokersWithState_loop_fst:
  "fst (BrokersWithState_loop sm bs acc evs) =
     acc @ map (\<lambda>b. Itoa (sint (Broker b))) (filter (\<lambda>b. BrokerState b \<in> dom sm) bs)"
  by (induction bs arbitrary: acc evs) (auto simp: Let_def split: option.splits)

lemma BrokersWithState_loop_snd:
  "submissions (snd (BrokersWithState_loop sm bs acc evs)) = submissions evs"
  by (induction bs arbitrary: acc evs) (auto simp: Let_def submissions_def split: option.splits)

lemma BrokersWithState_ok:
  assumes "client_KafkaClusterLoad cc = (resp, None)"
  shows "fst (BrokersWithState cc S) =
           (map (\<lambda>b. Itoa (sint (Broker b))) (filter (\<lambda>b. BrokerState b \<in> set S) (Brokers resp)), None)"
  using assms BrokersWithState_loop_fst [of "kafkaBrokerStatesToMap S" "Brokers resp" "[]" "[CallKafkaClusterLoad]"]
  by (auto simp: BrokersWithState_def Let_def dom_kafkaBrokerStatesToMap split: prod.splits)

lemma BrokersWithState_submissions: "submissions (snd (BrokersWithState cc S)) = []"
proof (cases "client_KafkaClusterLoad cc")
  case (Pair resp oe)
  show ?thesis
  proof (cases oe)
    case None
    with Pair BrokersWithState_loop_snd [of "kafkaBrokerStatesToMap S" "Brokers resp" "[]" "[CallKafkaClusterLoad]"]
    show ?thesis
      by (auto simp: BrokersWithState_def Let_def submissions_def split: prod.splits)
  next
    case (Some e)
    with Pair show ?thesis by (simp add: BrokersWithState_def submissions_def)
  qed
qed

lemma Status_loop_True: "Status_loop gs True = list_all (\<lambda>g. GoalReadiness_Status g = GoalReadinessStatusReady) gs"
  by (induction gs) auto

lemma LogDirsByBroker_loop_other:
  "b \<notin> fst ` set xs \<Longrightarrow> LogDirsByBroker_loop st xs m b = m b"
  by (induction xs arbitrary: m) (auto simp: Let_def)

lemma LogDirsByBroker_loop_key:
  "b \<in> fst ` set xs \<Longrightarrow>
     \<exists>dirs. (b, dirs) \<in> set xs \<and>
       LogDirsByBroker_loop st xs m b =
         Some ((case m b of None \<Rightarrow> newLogDirsByBroker | Some i \<Rightarrow> i)(st \<mapsto> dirs))"
proof (induction xs arbitrary: m)
  case Nil
  then show ?case by simp
next
  case (Cons x xs)
  obtain k v where x: "x = (k, v)" by (cases x)
  define base where "base = (case m k of None \<Rightarrow> newLogDirsByBroker | Some i \<Rightarrow> i)"
  define m' where "m' = m(k \<mapsto> base(st \<mapsto> v))"
  have step: "LogDirsByBroker_loop st (x # xs) m b = LogDirsByBroker_loop st xs m' b"
    by (simp add: x Let_def m'_def base_def)
  show ?case
  proof (cases "b \<in> fst ` set xs")
    case True
    from Cons.IH [OF True, of m'] obtain dirs where
      d1: "(b, dirs) \<in> set xs" and
      d2: "LogDirsByBroker_loop st xs m' b =
         Some ((case m' b of None \<Rightarrow> newLogDirsByBroker | Some i \<Rightarrow> i)(st \<mapsto> dirs))"
      by blast
    have "(case m' b of None \<Rightarrow> newLogDirsByBroker | Some i \<Rightarrow> i)(st \<mapsto> dirs) =
          (case m b of None \<Rightarrow> newLogDirsByBroker | Some i \<Rightarrow> i)(st \<mapsto> dirs)"
      by (cases "b = k") (simp_all add: m'_def base_def)
    with d2 step have "LogDirsByBroker_loop st (x # xs) m b =
        Some ((case m b of None \<Rightarrow> newLogDirsByBroker | Some i \<Rightarrow> i)(st \<mapsto> dirs))"
      by simp
    moreover have "(b, dirs) \<in> set (x # xs)" using d1 by simp
    ultimately show ?thesis by blast
  next
    case False
    with Cons.prems x have bk: "b = k" by auto
    from False have "LogDirsByBroker_loop st xs m' b = m' b"
      by (rule LogDirsByBroker_loop_other)
    with step bk have "LogDirsByBroker_loop st (x # xs) m b =
        Some ((case m b of None \<Rightarrow> newLogDirsByBroker | Some i \<Rightarrow> i)(st \<mapsto> v))"
      by (simp add: m'_def base_def)
    moreover have "(b, v) \<in> set (x # xs)" using bk x by simp
    ultimately show ?thesis by blast
  qed
qed

lemma submissions_append: "submissions (xs @ ys) = submissions xs @ submissions ys"
  by (simp add: submissions_def)

lemma BrokersWithState_submissions': "BrokersWithState cc S = (a, evs) \<Longrightarrow> submissions evs = []"
  using BrokersWithState_submissions [of cc S] by simp

lemma AddBrokers_settled: "settled cc (AddBrokers cc ids)"
proof (cases "BrokersWithState cc [KafkaBrokerAlive, KafkaBrokerNew]")
  case (Pair a evs)
  then have s: "submissions evs = []" by (rule BrokersWithState_submissions')
  obtain av oe where a: "a = (av, oe)" by (cases a)
  obtain bs be where c: "brokerIDsFromStringSlice ids = (bs, be)" by (cases "brokerIDsFromStringSlice ids")
  obtain resp e where r: "client_AddBroker cc \<lparr>AllowCapacityEstimation = True,
                                DataFrom = ProposalDataSourceValidWindows,
                                UseReadyDefaultGoals = True,
                                BrokerIDs = bs\<rparr> = (resp, e)" by (cases "client_AddBroker cc \<lparr>AllowCapacityEstimation = True,
                                DataFrom = ProposalDataSourceValidWindows,
                                UseReadyDefaultGoals = True,
                                BrokerIDs = bs\<rparr>")
  show ?thesis
    using Pair s a c r
    by (cases be; cases oe; cases e)
       (simp_all add: AddBrokers_def settled_def Let_def submissions_append submitted_result_def
          Sprintf_v_def submissions_def)
qed

lemma RemoveBrokers_loop_snd:
  "submissions (snd (RemoveBrokers_loop rc xs acc evs)) = submissions evs"
  by (induction xs arbitrary: acc evs)
     (auto simp: Let_def submissions_def split: option.splits sum.splits)

lemma RemoveBrokers_settled: "settled cc (RemoveBrokers cc ids)"
proof (cases "client_KafkaClusterState cc")
  case (Pair st oe)
  obtain a evs where l: "RemoveBrokers_loop (ReplicaCountByBrokerID st) ids [] [CallKafkaClusterState] = (a, evs)"
    by (cases "RemoveBrokers_loop (ReplicaCountByBrokerID st) ids [] [CallKafkaClusterState]")
  have s: "submissions evs = []"
    using RemoveBrokers_loop_snd [of "ReplicaCountByBrokerID st" ids "[]" "[CallKafkaClusterState]"] l
    by (simp add: submissions_def)
  obtain bs be where a: "a = (bs, be)" by (cases a)
  obtain resp e where r: "client_RemoveBroker cc \<lparr>AllowCapacityEstimation = True,
                                DataFrom = ProposalDataSourceValidWindows,
                                UseReadyDefaultGoals = True,
                                BrokerIDs = bs\<rparr> = (resp, e)" by (cases "client_RemoveBroker cc \<lparr>AllowCapacityEstimation = True,
                                DataFrom = ProposalDataSourceValidWindows,
                                UseReadyDefaultGoals = True,
                                BrokerIDs = bs\<rparr>")
  show ?thesis
    using Pair l s a r
    by (cases be; cases oe; cases e)
       (simp_all add: RemoveBrokers_def settled_def Let_def submissions_append submitted_result_def
          skipped_result_def Sprintf_v_def submissions_def)
qed

lemma RebalanceDisks_settled: "settled cc (RebalanceDisks cc ids)"
proof (cases "client_KafkaClusterLoad cc")
  case (Pair ld oe)
  define bs where "bs = RebalanceDisks_loop (stringSliceToMap ids) (Brokers ld) []"
  obtain resp e where r: "client_Rebalance cc \<lparr>AllowCapacityEstimation = True,
                        DataFrom = ProposalDataSourceValidWindows,
                        UseReadyDefaultGoals = True,
                        DestinationBrokerIDs = bs,
                        ExcludeRecentlyRemovedBrokers = True\<rparr> = (resp, e)" by (cases "client_Rebalance cc \<lparr>AllowCapacityEstimation = True,
                        DataFrom = ProposalDataSourceValidWindows,
                        UseReadyDefaultGoals = True,
                        DestinationBrokerIDs = bs,
                        ExcludeRecentlyRemovedBrokers = True\<rparr>")
  show ?thesis
    using Pair r
    by (cases oe; cases e)
       (simp_all add: RebalanceDisks_def settled_def Let_def submitted_result_def
          skipped_result_def Sprintf_v_def submissions_def bs_def [symmetric])
qed


lemma RebalanceDisks_disks_eq:
  "RebalanceDisks_disks i ds acc =
     acc @ replicate (length (filter (\<lambda>(disk, d). disk_qualifies d) ds)) i"
  by (induction ds arbitrary: acc) (auto simp: disk_qualifies_def)

lemma RebalanceDisks_loop_eq:
  "RebalanceDisks_loop m bs acc =
     acc @ concat (map (\<lambda>b. replicate (qualifying_disks b) (Broker b))
                     (filter (\<lambda>b. Itoa (sint (Broker b)) \<in> dom m) bs))"
  by (induction bs arbitrary: acc)
     (auto simp: RebalanceDisks_disks_eq qualifying_disks_def split: option.splits)

lemma qualifying_disks_pos:
  "(0 < qualifying_disks b) = (\<exists>(disk, d) \<in> set (DiskState b). disk_qualifies d)"
  by (auto simp: qualifying_disks_def filter_empty_conv)

lemma rebalance_targets_set:
  "set (concat (map (\<lambda>b. replicate (qualifying_disks b) (Broker b)) bs)) =
     {Broker b | b. b \<in> set bs \<and> 0 < qualifying_disks b}"
  by (induction bs) auto

lemma rebalance_targets_count:
  "count_list (concat (map (\<lambda>b. replicate (qualifying_disks b) (Broker b)) bs)) i =
     (\<Sum>b\<leftarrow>filter (\<lambda>b. Broker b = i) bs. qualifying_disks b)"
proof -
  have r: "count_list (replicate n x) i = (if x = i then n else 0)" for n and x :: int32
    by (induction n) auto
  show ?thesis by (induction bs) (auto simp: r)
qed

lemma RebalanceDisks_ok:
  assumes ok: "client_KafkaClusterLoad cc = (resp, None)"
    and t: "targets = concat (map (\<lambda>b. replicate (qualifying_disks b) (Broker b))
                     (filter (broker_requested brokerIDs) (Brokers resp)))"
  shows "(targets = [] \<longrightarrow>
            fst (RebalanceDisks cc brokerIDs) =
              (Some \<lparr>TaskID = [], StartedAt = [], State = CruiseControlTaskCompleted, Err = []\<rparr>, None)
          \<and> submissions (snd (RebalanceDisks cc brokerIDs)) = [])
       \<and> (targets \<noteq> [] \<longrightarrow>
            submissions (snd (RebalanceDisks cc brokerIDs)) =
              [CallRebalance \<lparr>AllowCapacityEstimation = True, DataFrom = ProposalDataSourceValidWindows,
                 UseReadyDefaultGoals = True, DestinationBrokerIDs = targets,
                 ExcludeRecentlyRemovedBrokers = True\<rparr>])"
proof -
  have l: "RebalanceDisks_loop (stringSliceToMap brokerIDs) (Brokers resp) [] = targets"
    by (simp add: RebalanceDisks_loop_eq dom_stringSliceToMap t broker_requested_def [abs_def])
  obtain r e where c: "client_Rebalance cc \<lparr>AllowCapacityEstimation = True, DataFrom = ProposalDataSourceValidWindows,
                 UseReadyDefaultGoals = True, DestinationBrokerIDs = targets,
                 ExcludeRecentlyRemovedBrokers = True\<rparr> = (r, e)"
    by (cases "client_Rebalance cc \<lparr>AllowCapacityEstimation = True, DataFrom = ProposalDataSourceValidWindows,
                 UseReadyDefaultGoals = True, DestinationBrokerIDs = targets,
                 ExcludeRecentlyRemovedBrokers = True\<rparr>")
  show ?thesis
    using ok l c by (cases e) (simp_all add: RebalanceDisks_def Let_def submissions_def)
qed

lemma AddBrokers_loop_eq:
  "AddBrokers_loop m xs acc = acc @ filter (\<lambda>x. x \<notin> dom m) xs"
  by (induction xs arbitrary: acc) (auto split: option.splits)

lemma RemoveBrokers_loop_ok:
  "\<forall>x \<in> set (filter (has_replicas rc) xs). \<not> isl (Atoi x) \<Longrightarrow>
     fst (RemoveBrokers_loop rc xs acc evs) =
       (acc @ map (\<lambda>x. word_of_int (projr (Atoi x))) (filter (has_replicas rc) xs), None)"
  by (induction xs arbitrary: acc evs)
     (auto simp: has_replicas_def Let_def split: option.splits sum.splits)

lemma RemoveBrokers_loop_err:
  assumes "\<exists>x \<in> set (filter (has_replicas rc) xs). isl (Atoi x)"
  shows "fst (RemoveBrokers_loop rc xs acc evs) =
           ([], Some (projl (Atoi (hd (filter (\<lambda>x. isl (Atoi x)) (filter (has_replicas rc) xs))))))"
  using assms
proof (induction xs arbitrary: acc evs)
  case Nil
  then show ?case by simp
next
  case (Cons a xs)
  show ?case
  proof (cases "has_replicas rc a")
    case False
    with Cons.prems have "\<exists>x \<in> set (filter (has_replicas rc) xs). isl (Atoi x)" by simp
    from Cons.IH [OF this] False show ?thesis
      by (cases "rc a") (simp_all add: has_replicas_def Let_def not_less)
  next
    case True
    then obtain n where n: "rc a = Some n" "0 < sint n"
      by (cases "rc a") (simp_all add: has_replicas_def)
    show ?thesis
    proof (cases "Atoi a")
      case (Inl e)
      with n True show ?thesis by (simp add: Let_def not_le)
    next
      case (Inr v)
      with Cons.prems True have "\<exists>x \<in> set (filter (has_replicas rc) xs). isl (Atoi x)"
        by auto
      from Cons.IH [OF this] Inr n True show ?thesis
        by (simp add: Let_def not_le)
    qed
  qed
qed

lemma Atoi_1: "Atoi ''1'' = Inr 1"
  by (simp add: Atoi_def is_digit_def Let_def)

lemma Atoi_2: "Atoi ''2'' = Inr 2"
  by (simp add: Atoi_def is_digit_def Let_def)

lemma Atoi_3: "Atoi ''3'' = Inr 3"
  by (simp add: Atoi_def is_digit_def Let_def)

lemma Atoi_5: "Atoi ''5'' = Inr 5"
  by (simp add: Atoi_def is_digit_def Let_def)

lemma Atoi_x: "Atoi ''x'' = Inl (NumError ''Atoi'' ''x'' ErrSyntax)"
  by (simp add: Atoi_def is_digit_def Let_def)

lemma ex_ok_available:
  "BrokersWithState ex_ok [KafkaBrokerAlive, KafkaBrokerNew] =
     (([''1'', ''2''], None),
      [CallKafkaClusterLoad,
       LogInfo ''Kafka broker is available in Cruise Control''
         [(''broker id'', LStr ''1''), (''state'', LState KafkaBrokerAlive)],
       LogInfo ''Kafka broker is available in Cruise Control''
         [(''broker id'', LStr ''2''), (''state'', LState KafkaBrokerNew)]])"
  by (simp add: BrokersWithState_def ex_ok_def ex_load_def Itoa_1 Itoa_2 Let_def)

lemma ex_fail_available:
  "BrokersWithState ex_fail S = BrokersWithState ex_ok S"
  by (simp add: BrokersWithState_def ex_fail_def)

lemma ex_blank_available:
  "BrokersWithState ex_blank S = BrokersWithState ex_ok S"
  by (simp add: BrokersWithState_def ex_blank_def)

subsection \<open>BrokersWithState\<close>

text \<open>
  C7: for the broker list \<open>Brokers resp\<close> that the cluster-load query reports and every
  list \<open>S\<close> of desired states, \<open>BrokersWithState\<close> returns, in the order of the report, the
  IDs of exactly the brokers whose reported state is in \<open>S\<close>, and no error; for the empty
  list of states it returns the empty list.
\<close>

theorem BrokersWithState_exact:
  assumes "client_KafkaClusterLoad cc = (resp, None)"
  shows "fst (BrokersWithState cc S) =
           (map (\<lambda>b. Itoa (sint (Broker b))) (filter (\<lambda>b. BrokerState b \<in> set S) (Brokers resp)), None)
         \<and> fst (BrokersWithState cc []) = ([], None)"
  using BrokersWithState_ok [OF assms, of S] BrokersWithState_ok [OF assms, of "[]"] by simp

theorem BrokersWithState_exact_witness:
  "client_KafkaClusterLoad ex_ok = (ex_load, None)
   \<and> fst (BrokersWithState ex_ok [KafkaBrokerAlive, KafkaBrokerNew]) = ([''1'', ''2''], None)
   \<and> fst (BrokersWithState ex_ok []) = ([], None)"
proof -
  have h: "client_KafkaClusterLoad ex_ok = (ex_load, None)"
    by (simp add: ex_ok_def)
  show ?thesis
    using h BrokersWithState_exact [OF h, of "[KafkaBrokerAlive, KafkaBrokerNew]"]
    by (simp add: ex_load_def Itoa_1 Itoa_2)
qed

subsection \<open>Status\<close>

text \<open>
  C4: when the state query succeeds, \<open>GoalsReady\<close> is true exactly when every goal of the
  goal readiness list reports the ready status; it is true for the empty list, and one
  goal that is not ready makes \<open>GoalsReady\<close> and \<open>AnalyzerReady\<close> false whatever the
  proposal readiness is; \<open>AnalyzerReady\<close> is the conjunction of the proposal readiness
  and \<open>GoalsReady\<close>.
\<close>

theorem Status_goals:
  assumes "client_State cc True = (resp, None)"
  shows "GoalsReady (fst (Status cc)) =
           list_all (\<lambda>g. GoalReadiness_Status g = GoalReadinessStatusReady) (GoalReadiness (AnalyzerState resp))
         \<and> (GoalReadiness (AnalyzerState resp) = [] \<longrightarrow> GoalsReady (fst (Status cc)))
         \<and> (list_ex (\<lambda>g. GoalReadiness_Status g \<noteq> GoalReadinessStatusReady) (GoalReadiness (AnalyzerState resp))
              \<longrightarrow> \<not> GoalsReady (fst (Status cc)) \<and> \<not> AnalyzerReady (fst (Status cc)))
         \<and> AnalyzerReady (fst (Status cc)) =
             (IsProposalReady (AnalyzerState resp) \<and> GoalsReady (fst (Status cc)))"
proof -
  have g: "GoalsReady (fst (Status cc)) =
           list_all (\<lambda>g. GoalReadiness_Status g = GoalReadinessStatusReady) (GoalReadiness (AnalyzerState resp))"
    using assms by (simp add: Status_def Let_def Status_loop_True)
  have a: "AnalyzerReady (fst (Status cc)) =
             (IsProposalReady (AnalyzerState resp) \<and> GoalsReady (fst (Status cc)))"
    using assms by (simp add: Status_def Let_def)
  show ?thesis using g a by (auto simp: list_all_iff list_ex_iff)
qed

theorem Status_goals_witness:
  "client_State ex_ok True = (ex_status [], None)
   \<and> GoalsReady (fst (Status ex_ok)) \<and> AnalyzerReady (fst (Status ex_ok))
   \<and> IsProposalReady (AnalyzerState (ex_status [\<lparr>GoalReadiness_Name = ''RackAwareGoal'',
         GoalReadiness_Status = GoalReadinessStatusNotReady\<rparr>]))
   \<and> \<not> GoalsReady (fst (Status ex_notready)) \<and> \<not> AnalyzerReady (fst (Status ex_notready))"
proof -
  have h1: "client_State ex_ok True = (ex_status [], None)"
    by (simp add: ex_ok_def)
  have h2: "client_State ex_notready True =
      (ex_status [\<lparr>GoalReadiness_Name = ''RackAwareGoal'',
                   GoalReadiness_Status = GoalReadinessStatusNotReady\<rparr>], None)"
    by (simp add: ex_notready_def ex_ok_def)
  show ?thesis
    using h1 Status_goals [OF h1] Status_goals [OF h2]
    by (simp add: ex_status_def)
qed

text \<open>
  C8: when the state query fails, \<open>Status\<close> returns the zero-valued snapshot: every
  readiness field is false and both numbers are zero.  \<open>Status\<close> has no error result;
  the error goes to the log.
\<close>

theorem Status_query_failure:
  assumes "snd (client_State cc True) = Some err"
  shows "Status cc =
           (\<lparr>MonitorReady = False, ExecutorReady = False, AnalyzerReady = False,
             ProposalReady = False, GoalsReady = False, MonitoredWindows = 0,
             MonitoringCoverage = 0\<rparr>,
            [CallState True, LogError (Some err) ''failed to get Cruise Control state'' []])"
  using assms by (cases "client_State cc True") (simp add: Status_def)

theorem Status_query_failure_witness:
  "snd (client_State ex_down True) = Some (errors_New ''connection refused'')
   \<and> fst (Status ex_down) =
       \<lparr>MonitorReady = False, ExecutorReady = False, AnalyzerReady = False,
        ProposalReady = False, GoalsReady = False, MonitoredWindows = 0,
        MonitoringCoverage = 0\<rparr>"
proof -
  have h: "snd (client_State ex_down True) = Some (errors_New ''connection refused'')"
    by (simp add: ex_down_def)
  show ?thesis
    using h Status_query_failure [OF h] by simp
qed

subsection \<open>LogDirsByBroker\<close>

text \<open>
  C9: when the cluster state query succeeds, every broker that is a key of the online or
  of the offline log directory report is a key of the result, and its entry has a list
  for the online and a list for the offline state; the list of a state whose report does
  not have the broker is the empty list.
\<close>

theorem LogDirsByBroker_buckets:
  assumes ok: "client_KafkaClusterState cc = (resp, None)"
    and b: "b \<in> fst ` set (OnlineLogDirsByBrokerID resp) \<union> fst ` set (OfflineLogDirsByBrokerID resp)"
  shows "\<exists>logDirsByBrokers logDirsByBroker online offline.
           fst (LogDirsByBroker cc) = (Some logDirsByBrokers, None)
         \<and> logDirsByBrokers b = Some logDirsByBroker
         \<and> logDirsByBroker LogDirStateOnline = Some online
         \<and> logDirsByBroker LogDirStateOffline = Some offline
         \<and> (b \<notin> fst ` set (OnlineLogDirsByBrokerID resp) \<longrightarrow> online = [])
         \<and> (b \<notin> fst ` set (OfflineLogDirsByBrokerID resp) \<longrightarrow> offline = [])"
proof -
  define on where "on = OnlineLogDirsByBrokerID resp"
  define off where "off = OfflineLogDirsByBrokerID resp"
  define m1 where "m1 = LogDirsByBroker_loop LogDirStateOnline on Map.empty"
  define m2 where "m2 = LogDirsByBroker_loop LogDirStateOffline off m1"
  have res: "fst (LogDirsByBroker cc) = (Some m2, None)"
    using ok by (simp add: LogDirsByBroker_def Let_def m2_def m1_def on_def off_def)
  have "\<exists>inner online offline. m2 b = Some inner
         \<and> inner LogDirStateOnline = Some online \<and> inner LogDirStateOffline = Some offline
         \<and> (b \<notin> fst ` set on \<longrightarrow> online = []) \<and> (b \<notin> fst ` set off \<longrightarrow> offline = [])"
  proof (cases "b \<in> fst ` set on")
    case True
    from LogDirsByBroker_loop_key [OF True, of LogDirStateOnline Map.empty]
    obtain d1 where d1: "m1 b = Some (newLogDirsByBroker(LogDirStateOnline \<mapsto> d1))"
      by (auto simp: m1_def)
    show ?thesis
    proof (cases "b \<in> fst ` set off")
      case True
      from LogDirsByBroker_loop_key [OF True, of LogDirStateOffline m1]
      obtain d2 where "m2 b = Some ((newLogDirsByBroker(LogDirStateOnline \<mapsto> d1))(LogDirStateOffline \<mapsto> d2))"
        using d1 by (auto simp: m2_def)
      with True \<open>b \<in> fst ` set on\<close> show ?thesis by simp
    next
      case False
      then have "m2 b = m1 b" unfolding m2_def by (rule LogDirsByBroker_loop_other)
      with d1 False \<open>b \<in> fst ` set on\<close> show ?thesis by (simp add: newLogDirsByBroker_def)
    qed
  next
    case False
    then have n1: "m1 b = None" by (simp add: m1_def LogDirsByBroker_loop_other)
    from False b have t: "b \<in> fst ` set off" by (simp add: on_def off_def)
    from LogDirsByBroker_loop_key [OF t, of LogDirStateOffline m1]
    obtain d2 where "m2 b = Some (newLogDirsByBroker(LogDirStateOffline \<mapsto> d2))"
      using n1 by (auto simp: m2_def)
    with False t show ?thesis by (simp add: newLogDirsByBroker_def)
  qed
  with res show ?thesis unfolding on_def off_def by blast
qed

theorem LogDirsByBroker_buckets_witness:
  "client_KafkaClusterState ex_ok = (ex_state, None)
   \<and> ''3'' \<in> fst ` set (OnlineLogDirsByBrokerID ex_state) \<union> fst ` set (OfflineLogDirsByBrokerID ex_state)
   \<and> ''3'' \<notin> fst ` set (OnlineLogDirsByBrokerID ex_state)
   \<and> (\<exists>logDirsByBrokers logDirsByBroker offline.
         fst (LogDirsByBroker ex_ok) = (Some logDirsByBrokers, None)
       \<and> logDirsByBrokers ''3'' = Some logDirsByBroker
       \<and> logDirsByBroker LogDirStateOnline = Some []
       \<and> logDirsByBroker LogDirStateOffline = Some offline)"
proof -
  have h1: "client_KafkaClusterState ex_ok = (ex_state, None)"
    by (simp add: ex_ok_def)
  have h2: "''3'' \<in> fst ` set (OnlineLogDirsByBrokerID ex_state) \<union> fst ` set (OfflineLogDirsByBrokerID ex_state)"
    by (simp add: ex_state_def)
  have h3: "''3'' \<notin> fst ` set (OnlineLogDirsByBrokerID ex_state)"
    by (simp add: ex_state_def)
  from LogDirsByBroker_buckets [OF h1 h2] h3 have
    "\<exists>logDirsByBrokers logDirsByBroker offline.
         fst (LogDirsByBroker ex_ok) = (Some logDirsByBrokers, None)
       \<and> logDirsByBrokers ''3'' = Some logDirsByBroker
       \<and> logDirsByBroker LogDirStateOnline = Some []
       \<and> logDirsByBroker LogDirStateOffline = Some offline"
    by blast
  with h1 h2 h3 show ?thesis by blast
qed

subsection \<open>Task results\<close>

text \<open>
  C1 (as amended): for \<open>AddBrokers\<close>, \<open>RemoveBrokers\<close> and \<open>RebalanceDisks\<close>, a returned
  task result is in state Active only when the one submission was answered without an
  error, and then no error is returned; when the submission was answered with an error,
  the result is in state CompletedWithError, its error description is the description of
  that error (so it is non-empty whenever the error has a non-empty description) and the
  error is returned; and a result that is returned without any submission is in state
  Completed with an empty task identifier.
\<close>

theorem result_state_invariant:
  assumes op: "op = AddBrokers \<or> op = RemoveBrokers \<or> op = RebalanceDisks"
    and out: "fst (op cc brokerIDs) = (Some r, oe)"
  shows "(State r = CruiseControlTaskActive \<longrightarrow>
            oe = None
          \<and> (\<exists>s resp. submissions (snd (op cc brokerIDs)) = [s] \<and> client_answer cc s = Some (resp, None)))
       \<and> (submissions (snd (op cc brokerIDs)) = [s] \<and> client_answer cc s = Some (resp, Some e) \<longrightarrow>
            State r = CruiseControlTaskCompletedWithError \<and> Err r = Error e \<and> oe = Some e
          \<and> (Error e \<noteq> [] \<longrightarrow> Err r \<noteq> []))
       \<and> (submissions (snd (op cc brokerIDs)) = [] \<longrightarrow>
            State r = CruiseControlTaskCompleted \<and> TaskID r = [] \<and> oe = None)"
proof -
  from op have "settled cc (op cc brokerIDs)"
    using AddBrokers_settled RemoveBrokers_settled RebalanceDisks_settled by blast
  then consider
      (skip) "fst (op cc brokerIDs) = (Some skipped_result, None)"
        "submissions (snd (op cc brokerIDs)) = []"
    | (sub) s' resp' e' where "submissions (snd (op cc brokerIDs)) = [s']"
        "client_answer cc s' = Some (resp', e')"
        "fst (op cc brokerIDs) = (Some (submitted_result resp' e'), e')"
    using out by (auto simp: settled_def)
  then show ?thesis
  proof cases
    case skip
    with out show ?thesis by (auto simp: skipped_result_def)
  next
    case sub
    with out show ?thesis by (cases e') (auto simp: submitted_result_def)
  qed
qed

theorem result_state_invariant_witness:
  "fst (AddBrokers ex_ok [''1'']) =
     (Some \<lparr>TaskID = ''task-1'', StartedAt = ''Sun, 01 Nov 2026 10:00:00 GMT'',
            State = CruiseControlTaskActive, Err = []\<rparr>, None)
   \<and> (\<exists>s resp. submissions (snd (AddBrokers ex_ok [''1''])) = [s]
         \<and> client_answer ex_ok s = Some (resp, None))
   \<and> submissions (snd (RemoveBrokers ex_fail [''5''])) =
       [CallRemoveBroker \<lparr>AllowCapacityEstimation = True, DataFrom = ProposalDataSourceValidWindows,
          UseReadyDefaultGoals = True, BrokerIDs = [5]\<rparr>]
   \<and> fst (RemoveBrokers ex_fail [''5'']) =
       (Some \<lparr>TaskID = [], StartedAt = [], State = CruiseControlTaskCompletedWithError,
              Err = ''connection refused''\<rparr>,
        Some (errors_New ''connection refused''))
   \<and> submissions (snd (RebalanceDisks ex_ok [''1''])) = []
   \<and> fst (RebalanceDisks ex_ok [''1'']) =
       (Some \<lparr>TaskID = [], StartedAt = [], State = CruiseControlTaskCompleted, Err = []\<rparr>, None)"
proof -
  let ?active = "\<lparr>TaskID = ''task-1'', StartedAt = ''Sun, 01 Nov 2026 10:00:00 GMT'',
            State = CruiseControlTaskActive, Err = []\<rparr>"
  let ?req = "\<lparr>AllowCapacityEstimation = True, DataFrom = ProposalDataSourceValidWindows,
          UseReadyDefaultGoals = True, BrokerIDs = [5 :: int32]\<rparr>"
  let ?failed = "\<lparr>TaskID = [], StartedAt = [], State = CruiseControlTaskCompletedWithError,
              Err = ''connection refused''\<rparr>"
  let ?skipped = "\<lparr>TaskID = [], StartedAt = [], State = CruiseControlTaskCompleted, Err = []\<rparr>"
  have a: "fst (AddBrokers ex_ok [''1'']) = (Some ?active, None)"
    by (simp add: AddBrokers_def Atoi_1 ex_ok_available Let_def) (simp add: ex_ok_def ex_task_def)
  have b: "fst (RemoveBrokers ex_fail [''5'']) = (Some ?failed, Some (errors_New ''connection refused''))"
    by (simp add: RemoveBrokers_def ex_fail_def ex_ok_def ex_state_def Atoi_5 Let_def
          zero_response_def Sprintf_v_def)
  have b1: "submissions (snd (RemoveBrokers ex_fail [''5''])) = [CallRemoveBroker ?req]"
    by (simp add: RemoveBrokers_def ex_fail_def ex_ok_def ex_state_def Atoi_5 Let_def
          submissions_def)
  have b2: "client_answer ex_fail (CallRemoveBroker ?req) =
              Some (zero_response, Some (errors_New ''connection refused''))"
    by (simp add: ex_fail_def)
  have c: "fst (RebalanceDisks ex_ok [''1'']) = (Some ?skipped, None)"
    by (simp add: RebalanceDisks_def ex_ok_def ex_load_def Itoa_1 Itoa_2 Itoa_3 Let_def)
  have c1: "submissions (snd (RebalanceDisks ex_ok [''1''])) = []"
    by (simp add: RebalanceDisks_def ex_ok_def ex_load_def Itoa_1 Itoa_2 Itoa_3 Let_def
          submissions_def)
  from result_state_invariant [of AddBrokers, OF _ a]
  have 1: "\<exists>s resp. submissions (snd (AddBrokers ex_ok [''1''])) = [s]
         \<and> client_answer ex_ok s = Some (resp, None)"
    by simp
  from result_state_invariant [of RemoveBrokers ex_fail "[''5'']" ?failed
         "Some (errors_New ''connection refused'')" "CallRemoveBroker ?req" zero_response
         "errors_New ''connection refused''", OF _ b] b1 b2
  have 2: "Err ?failed \<noteq> []" by simp
  from result_state_invariant [of RebalanceDisks, OF _ c] c1
  have 3: "State ?skipped = CruiseControlTaskCompleted \<and> TaskID ?skipped = []" by simp
  from a 1 b b1 2 c c1 3 show ?thesis by simp
qed

theorem submission_error_blank_description:
  "fst (AddBrokers ex_blank [''1'']) =
     (Some \<lparr>TaskID = [], StartedAt = [], State = CruiseControlTaskCompletedWithError, Err = []\<rparr>,
      Some (errors_New []))"
  by (simp add: AddBrokers_def Atoi_1 ex_blank_available ex_ok_available Let_def)
     (simp add: ex_blank_def zero_response_def Sprintf_v_def)

text \<open>
  C2: when the submission of \<open>AddBrokers\<close>, \<open>RemoveBrokers\<close> or \<open>RebalanceDisks\<close> is answered
  with an error, the operation returns a task result whose task identifier and start
  time are the fields of the response that came with the error, whatever they are, with
  state CompletedWithError and the description of the error, and it returns the error as
  well.  With the response whose fields were never filled both fields are empty.
\<close>

theorem submission_error_result:
  assumes op: "op = AddBrokers \<or> op = RemoveBrokers \<or> op = RebalanceDisks"
    and sub: "submissions (snd (op cc brokerIDs)) = [s]"
    and err: "client_answer cc s = Some (resp, Some err)"
  shows "fst (op cc brokerIDs) =
           (Some \<lparr>TaskID = Resp_TaskID resp, StartedAt = Resp_Date resp,
                  State = CruiseControlTaskCompletedWithError, Err = Error err\<rparr>,
            Some err)"
proof -
  from op have "settled cc (op cc brokerIDs)"
    using AddBrokers_settled RemoveBrokers_settled RebalanceDisks_settled by blast
  with sub err show ?thesis
    by (auto simp: settled_def submitted_result_def)
qed

theorem submission_error_result_witness:
  "submissions (snd (AddBrokers ex_fail [''1''])) =
     [CallAddBroker \<lparr>AllowCapacityEstimation = True, DataFrom = ProposalDataSourceValidWindows,
        UseReadyDefaultGoals = True, BrokerIDs = [1]\<rparr>]
   \<and> fst (AddBrokers ex_fail [''1'']) =
       (Some \<lparr>TaskID = [], StartedAt = [], State = CruiseControlTaskCompletedWithError,
              Err = ''connection refused''\<rparr>,
        Some (errors_New ''connection refused''))
   \<and> submissions (snd (RemoveBrokers ex_fail [''5''])) =
       [CallRemoveBroker \<lparr>AllowCapacityEstimation = True, DataFrom = ProposalDataSourceValidWindows,
          UseReadyDefaultGoals = True, BrokerIDs = [5]\<rparr>]
   \<and> fst (RemoveBrokers ex_fail [''5'']) =
       (Some \<lparr>TaskID = [], StartedAt = [], State = CruiseControlTaskCompletedWithError,
              Err = ''connection refused''\<rparr>,
        Some (errors_New ''connection refused''))
   \<and> submissions (snd (RebalanceDisks ex_fail [''2''])) =
       [CallRebalance \<lparr>AllowCapacityEstimation = True, DataFrom = ProposalDataSourceValidWindows,
          UseReadyDefaultGoals = True, DestinationBrokerIDs = [2, 2],
          ExcludeRecentlyRemovedBrokers = True\<rparr>]
   \<and> fst (RebalanceDisks ex_fail [''2'']) =
       (Some \<lparr>TaskID = ''task-1'', StartedAt = ''Sun, 01 Nov 2026 10:00:00 GMT'',
              State = CruiseControlTaskCompletedWithError, Err = ''connection refused''\<rparr>,
        Some (errors_New ''connection refused''))"
proof -
  let ?add = "\<lparr>AllowCapacityEstimation = True, DataFrom = ProposalDataSourceValidWindows,
        UseReadyDefaultGoals = True, BrokerIDs = [1 :: int32]\<rparr>"
  let ?rm = "\<lparr>AllowCapacityEstimation = True, DataFrom = ProposalDataSourceValidWindows,
        UseReadyDefaultGoals = True, BrokerIDs = [5 :: int32]\<rparr>"
  let ?rb = "\<lparr>AllowCapacityEstimation = True, DataFrom = ProposalDataSourceValidWindows,
          UseReadyDefaultGoals = True, DestinationBrokerIDs = [2, 2 :: int32],
          ExcludeRecentlyRemovedBrokers = True\<rparr>"
  let ?e = "errors_New ''connection refused''"
  have op: "AddBrokers = AddBrokers \<or> AddBrokers = RemoveBrokers \<or> AddBrokers = RebalanceDisks"
    "RemoveBrokers = AddBrokers \<or> RemoveBrokers = RemoveBrokers \<or> RemoveBrokers = RebalanceDisks"
    "RebalanceDisks = AddBrokers \<or> RebalanceDisks = RemoveBrokers \<or> RebalanceDisks = RebalanceDisks"
    by simp_all
  have a: "submissions (snd (AddBrokers ex_fail [''1''])) = [CallAddBroker ?add]"
    by (simp add: AddBrokers_def Atoi_1 ex_fail_available ex_ok_available Let_def submissions_def)
       (simp add: ex_fail_def)
  have a': "client_answer ex_fail (CallAddBroker ?add) = Some (zero_response, Some ?e)"
    by (simp add: ex_fail_def)
  have b: "submissions (snd (RemoveBrokers ex_fail [''5''])) = [CallRemoveBroker ?rm]"
    by (simp add: RemoveBrokers_def ex_fail_def ex_ok_def ex_state_def Atoi_5 Let_def
          submissions_def)
  have b': "client_answer ex_fail (CallRemoveBroker ?rm) = Some (zero_response, Some ?e)"
    by (simp add: ex_fail_def)
  have c: "submissions (snd (RebalanceDisks ex_fail [''2''])) = [CallRebalance ?rb]"
    by (simp add: RebalanceDisks_def ex_fail_def ex_ok_def ex_load_def Itoa_1 Itoa_2 Itoa_3 Let_def
          submissions_def)
  have c': "client_answer ex_fail (CallRebalance ?rb) = Some (ex_task, Some ?e)"
    by (simp add: ex_fail_def)
  from submission_error_result [OF op(1) a a'] submission_error_result [OF op(2) b b']
    submission_error_result [OF op(3) c c'] a b c
  show ?thesis by (simp add: zero_response_def ex_task_def)
qed

subsection \<open>AddBrokers\<close>

text \<open>
  C3 (as amended): when the cluster-load query succeeds and some requested broker ID is
  not among the IDs of the brokers reported in state Alive or New, \<open>AddBrokers\<close> is
  rejected before any submission: it returns no result and an error, and nothing is
  submitted.  When every requested ID is numeric the error is the fixed text
  ``not all brokers are available which are meant to be added to the Kafka cluster'',
  which names no broker; the offending IDs are the value of the last line written to the
  log.
\<close>

theorem AddBrokers_unavailable:
  assumes ok: "client_KafkaClusterLoad cc = (resp, None)"
    and av: "available = map (\<lambda>b. Itoa (sint (Broker b)))
               (filter (\<lambda>b. BrokerState b = KafkaBrokerAlive \<or> BrokerState b = KafkaBrokerNew)
                  (Brokers resp))"
    and req: "brokerID \<in> set brokerIDs"
    and un: "brokerID \<notin> set available"
  shows "fst (fst (AddBrokers cc brokerIDs)) = None
       \<and> snd (fst (AddBrokers cc brokerIDs)) \<noteq> None
       \<and> submissions (snd (AddBrokers cc brokerIDs)) = []
       \<and> (snd (brokerIDsFromStringSlice brokerIDs) = None \<longrightarrow>
            snd (fst (AddBrokers cc brokerIDs)) =
              Some (errors_New
                ''not all brokers are available which are meant to be added to the Kafka cluster'')
          \<and> last (snd (AddBrokers cc brokerIDs)) =
              LogError None ''there are offline brokers to be added''
                [(''broker(s)'', LStrs (filter (\<lambda>x. x \<notin> set available) brokerIDs))])"
proof -
  obtain a evs where b: "BrokersWithState cc [KafkaBrokerAlive, KafkaBrokerNew] = (a, evs)"
    by (cases "BrokersWithState cc [KafkaBrokerAlive, KafkaBrokerNew]")
  from BrokersWithState_ok [OF ok, of "[KafkaBrokerAlive, KafkaBrokerNew]"] b av
  have a: "a = (available, None)" by simp
  from b have s: "submissions evs = []" by (rule BrokersWithState_submissions')
  have l: "AddBrokers_loop (stringSliceToMap available) brokerIDs [] =
             filter (\<lambda>x. x \<notin> set available) brokerIDs"
    by (simp add: AddBrokers_loop_eq dom_stringSliceToMap)
  from req un have ne: "filter (\<lambda>x. x \<notin> set available) brokerIDs \<noteq> []"
    by (auto simp: filter_empty_conv)
  from req have ne': "brokerIDs \<noteq> []" by auto
  obtain bs be where c: "brokerIDsFromStringSlice brokerIDs = (bs, be)"
    by (cases "brokerIDsFromStringSlice brokerIDs")
  show ?thesis
    using b a s l ne ne' c
    by (cases be) (simp_all add: AddBrokers_def Let_def submissions_append submissions_def)
qed

theorem AddBrokers_unavailable_witness:
  "client_KafkaClusterLoad ex_ok = (ex_load, None)
   \<and> [''1'', ''2''] = map (\<lambda>b. Itoa (sint (Broker b)))
        (filter (\<lambda>b. BrokerState b = KafkaBrokerAlive \<or> BrokerState b = KafkaBrokerNew)
           (Brokers ex_load))
   \<and> ''3'' \<in> set [''3'', ''1''] \<and> ''3'' \<notin> set [''1'', ''2'']
   \<and> snd (brokerIDsFromStringSlice [''3'', ''1'']) = None
   \<and> fst (AddBrokers ex_ok [''3'', ''1'']) =
       (None, Some (errors_New
                ''not all brokers are available which are meant to be added to the Kafka cluster''))
   \<and> submissions (snd (AddBrokers ex_ok [''3'', ''1''])) = []
   \<and> last (snd (AddBrokers ex_ok [''3'', ''1''])) =
       LogError None ''there are offline brokers to be added'' [(''broker(s)'', LStrs [''3''])]"
proof -
  have h1: "client_KafkaClusterLoad ex_ok = (ex_load, None)"
    by (simp add: ex_ok_def)
  have h2: "[''1'', ''2''] = map (\<lambda>b. Itoa (sint (Broker b)))
        (filter (\<lambda>b. BrokerState b = KafkaBrokerAlive \<or> BrokerState b = KafkaBrokerNew)
           (Brokers ex_load))"
    by (simp add: ex_load_def Itoa_1 Itoa_2)
  have h3: "''3'' \<in> set [''3'', ''1'']" by simp
  have h4: "''3'' \<notin> set [''1'', ''2'']" by simp
  have h5: "snd (brokerIDsFromStringSlice [''3'', ''1'']) = None"
    by (simp add: Atoi_1 Atoi_3)
  from AddBrokers_unavailable [OF h1 h2 h3 h4] h5
  have "fst (fst (AddBrokers ex_ok [''3'', ''1''])) = None
      \<and> snd (fst (AddBrokers ex_ok [''3'', ''1''])) =
              Some (errors_New
                ''not all brokers are available which are meant to be added to the Kafka cluster'')
      \<and> submissions (snd (AddBrokers ex_ok [''3'', ''1''])) = []
      \<and> last (snd (AddBrokers ex_ok [''3'', ''1''])) =
              LogError None ''there are offline brokers to be added'' [(''broker(s)'', LStrs [''3''])]"
    by simp
  with h1 h2 h3 h4 h5 show ?thesis by (simp add: prod_eq_iff)
qed

theorem AddBrokers_error_names_no_broker:
  "BrokerState (Brokers ex_load ! 2) = KafkaBrokerDead
   \<and> Itoa (sint (Broker (Brokers ex_load ! 2))) = ''3''
   \<and> fst (BrokersWithState ex_ok [KafkaBrokerAlive, KafkaBrokerNew]) = ([''1'', ''2''], None)
   \<and> fst (AddBrokers ex_ok [''3'']) =
       (None, Some (errors_New
                ''not all brokers are available which are meant to be added to the Kafka cluster''))
   \<and> CHR ''3'' \<notin> set (Error (errors_New
                ''not all brokers are available which are meant to be added to the Kafka cluster''))"
proof -
  have "BrokerState (Brokers ex_load ! 2) = KafkaBrokerDead"
    by (simp add: ex_load_def)
  moreover have "Itoa (sint (Broker (Brokers ex_load ! 2))) = ''3''"
    by (simp add: ex_load_def Itoa_3)
  moreover have "fst (BrokersWithState ex_ok [KafkaBrokerAlive, KafkaBrokerNew]) = ([''1'', ''2''], None)"
    by (simp add: ex_ok_available)
  moreover have "fst (AddBrokers ex_ok [''3'']) =
       (None, Some (errors_New
                ''not all brokers are available which are meant to be added to the Kafka cluster''))"
    by (simp add: AddBrokers_def Atoi_3 ex_ok_available Let_def)
  moreover have "CHR ''3'' \<notin> set (Error (errors_New
                ''not all brokers are available which are meant to be added to the Kafka cluster''))"
    by simp
  ultimately show ?thesis by blast
qed

subsection \<open>RemoveBrokers\<close>

text \<open>
  C5 (as amended): for a non-empty list of requested IDs and a cluster state query that
  succeeds, the eligible IDs are the requested IDs with a positive reported replica
  count, so an ID whose count is zero or unknown is not among them.  When no requested
  ID is eligible, \<open>RemoveBrokers\<close> returns a result in state Completed with an empty task
  identifier, no error, and submits nothing.  When some ID is eligible and
  \<^verbatim>\<open>strconv.Atoi\<close> accepts every eligible ID, it makes exactly one remove submission, whose
  broker list is the \<^verbatim>\<open>int32\<close> conversion of each eligible ID in the order of the request.
  When \<^verbatim>\<open>strconv.Atoi\<close> rejects an eligible ID, it returns no result and the error of
  \<^verbatim>\<open>strconv.Atoi\<close> for the first eligible ID that is rejected, and submits nothing.
\<close>

theorem RemoveBrokers_eligible:
  assumes ne: "brokerIDs \<noteq> []"
    and ok: "client_KafkaClusterState cc = (resp, None)"
    and el: "eligible = filter (has_replicas (ReplicaCountByBrokerID resp)) brokerIDs"
  shows "(\<forall>brokerID \<in> set brokerIDs.
            ReplicaCountByBrokerID resp brokerID = None \<or> ReplicaCountByBrokerID resp brokerID = Some 0
            \<longrightarrow> brokerID \<notin> set eligible)
       \<and> (eligible = [] \<longrightarrow>
            fst (RemoveBrokers cc brokerIDs) =
              (Some \<lparr>TaskID = [], StartedAt = [], State = CruiseControlTaskCompleted, Err = []\<rparr>, None)
          \<and> submissions (snd (RemoveBrokers cc brokerIDs)) = [])
       \<and> (eligible \<noteq> [] \<and> (\<forall>brokerID \<in> set eligible. \<not> isl (Atoi brokerID)) \<longrightarrow>
            submissions (snd (RemoveBrokers cc brokerIDs)) =
              [CallRemoveBroker \<lparr>AllowCapacityEstimation = True, DataFrom = ProposalDataSourceValidWindows,
                 UseReadyDefaultGoals = True,
                 BrokerIDs = map (\<lambda>brokerID. word_of_int (projr (Atoi brokerID))) eligible\<rparr>])
       \<and> ((\<exists>brokerID \<in> set eligible. isl (Atoi brokerID)) \<longrightarrow>
            fst (RemoveBrokers cc brokerIDs) =
              (None,
               Some (projl (Atoi (hd (filter (\<lambda>brokerID. isl (Atoi brokerID)) eligible)))))
          \<and> submissions (snd (RemoveBrokers cc brokerIDs)) = [])"
proof -
  define rc where "rc = ReplicaCountByBrokerID resp"
  obtain a evs where l: "RemoveBrokers_loop rc brokerIDs [] [CallKafkaClusterState] = (a, evs)"
    by (cases "RemoveBrokers_loop rc brokerIDs [] [CallKafkaClusterState]")
  have s: "submissions evs = []"
    using RemoveBrokers_loop_snd [of rc brokerIDs "[]" "[CallKafkaClusterState]"] l
    by (simp add: submissions_def)
  have excl: "\<forall>brokerID \<in> set brokerIDs.
            ReplicaCountByBrokerID resp brokerID = None \<or> ReplicaCountByBrokerID resp brokerID = Some 0
            \<longrightarrow> brokerID \<notin> set eligible"
    by (auto simp: el has_replicas_def)
  have skip: "fst (RemoveBrokers cc brokerIDs) =
              (Some \<lparr>TaskID = [], StartedAt = [], State = CruiseControlTaskCompleted, Err = []\<rparr>, None)
          \<and> submissions (snd (RemoveBrokers cc brokerIDs)) = []" if "eligible = []"
  proof -
    from that have "\<forall>x \<in> set (filter (has_replicas rc) brokerIDs). \<not> isl (Atoi x)"
      by (simp add: el rc_def)
    from RemoveBrokers_loop_ok [OF this, of "[]" "[CallKafkaClusterState]"] that l
    have "a = ([], None)" by (simp add: el rc_def)
    with ne ok l s show ?thesis by (simp add: RemoveBrokers_def rc_def)
  qed
  have submit: "submissions (snd (RemoveBrokers cc brokerIDs)) =
              [CallRemoveBroker \<lparr>AllowCapacityEstimation = True, DataFrom = ProposalDataSourceValidWindows,
                 UseReadyDefaultGoals = True,
                 BrokerIDs = map (\<lambda>brokerID. word_of_int (projr (Atoi brokerID))) eligible\<rparr>]"
    if "eligible \<noteq> []" "\<forall>brokerID \<in> set eligible. \<not> isl (Atoi brokerID)"
  proof -
    from that(2) have "\<forall>x \<in> set (filter (has_replicas rc) brokerIDs). \<not> isl (Atoi x)"
      by (simp add: el rc_def)
    from RemoveBrokers_loop_ok [OF this, of "[]" "[CallKafkaClusterState]"] l
    have a: "a = (map (\<lambda>brokerID. word_of_int (projr (Atoi brokerID))) eligible, None)"
      by (simp add: el rc_def)
    obtain r e where c: "client_RemoveBroker cc
               \<lparr>AllowCapacityEstimation = True, DataFrom = ProposalDataSourceValidWindows,
                 UseReadyDefaultGoals = True,
                 BrokerIDs = map (\<lambda>brokerID. word_of_int (projr (Atoi brokerID))) eligible\<rparr> = (r, e)"
      by (cases "client_RemoveBroker cc
               \<lparr>AllowCapacityEstimation = True, DataFrom = ProposalDataSourceValidWindows,
                 UseReadyDefaultGoals = True,
                 BrokerIDs = map (\<lambda>brokerID. word_of_int (projr (Atoi brokerID))) eligible\<rparr>")
    show ?thesis
      using ne ok l s a c that(1)
      by (cases e) (simp_all add: RemoveBrokers_def rc_def Let_def submissions_append submissions_def)
  qed
  have reject: "fst (RemoveBrokers cc brokerIDs) =
              (None,
               Some (projl (Atoi (hd (filter (\<lambda>brokerID. isl (Atoi brokerID)) eligible)))))
          \<and> submissions (snd (RemoveBrokers cc brokerIDs)) = []"
    if "\<exists>brokerID \<in> set eligible. isl (Atoi brokerID)"
  proof -
    from that have "\<exists>x \<in> set (filter (has_replicas rc) brokerIDs). isl (Atoi x)"
      by (simp add: el rc_def)
    from RemoveBrokers_loop_err [OF this, of "[]" "[CallKafkaClusterState]"] l
    have "a = ([], Some (projl (Atoi (hd (filter (\<lambda>brokerID. isl (Atoi brokerID)) eligible)))))"
      by (simp add: el rc_def)
    with ne ok l s show ?thesis by (simp add: RemoveBrokers_def rc_def)
  qed
  show ?thesis
    by (intro conjI impI excl) (use skip submit reject in simp_all)
qed

theorem RemoveBrokers_eligible_witness:
  "[''6'', ''9''] \<noteq> [] \<and> client_KafkaClusterState ex_ok = (ex_state, None)
   \<and> ReplicaCountByBrokerID ex_state ''6'' = Some 0 \<and> ReplicaCountByBrokerID ex_state ''9'' = None
   \<and> [] = filter (has_replicas (ReplicaCountByBrokerID ex_state)) [''6'', ''9'']
   \<and> fst (RemoveBrokers ex_ok [''6'', ''9'']) =
       (Some \<lparr>TaskID = [], StartedAt = [], State = CruiseControlTaskCompleted, Err = []\<rparr>, None)
   \<and> submissions (snd (RemoveBrokers ex_ok [''6'', ''9''])) = []
   \<and> [''5''] = filter (has_replicas (ReplicaCountByBrokerID ex_state)) [''6'', ''5'']
   \<and> \<not> isl (Atoi ''5'')
   \<and> submissions (snd (RemoveBrokers ex_ok [''6'', ''5''])) =
       [CallRemoveBroker \<lparr>AllowCapacityEstimation = True, DataFrom = ProposalDataSourceValidWindows,
          UseReadyDefaultGoals = True, BrokerIDs = [5]\<rparr>]
   \<and> [''x''] = filter (has_replicas (ReplicaCountByBrokerID ex_state)) [''x'']
   \<and> isl (Atoi ''x'')
   \<and> fst (RemoveBrokers ex_ok [''x'']) = (None, Some (NumError ''Atoi'' ''x'' ErrSyntax))
   \<and> submissions (snd (RemoveBrokers ex_ok [''x''])) = []"
proof -
  have ok: "client_KafkaClusterState ex_ok = (ex_state, None)"
    by (simp add: ex_ok_def)
  have c: "ReplicaCountByBrokerID ex_state ''6'' = Some 0" "ReplicaCountByBrokerID ex_state ''9'' = None"
    by (simp_all add: ex_state_def)
  have e1: "[] = filter (has_replicas (ReplicaCountByBrokerID ex_state)) [''6'', ''9'']"
    by (simp add: has_replicas_def ex_state_def)
  have e2: "[''5''] = filter (has_replicas (ReplicaCountByBrokerID ex_state)) [''6'', ''5'']"
    by (simp add: has_replicas_def ex_state_def)
  have e3: "[''x''] = filter (has_replicas (ReplicaCountByBrokerID ex_state)) [''x'']"
    by (simp add: has_replicas_def ex_state_def)
  have n: "[''6'', ''9''] \<noteq> []" "[''6'', ''5''] \<noteq> []" "[''x''] \<noteq> []" by simp_all
  have a5: "\<not> isl (Atoi ''5'')" by (simp add: Atoi_5)
  have ax: "isl (Atoi ''x'')" by (simp add: Atoi_x)
  from RemoveBrokers_eligible [OF n(1) ok e1]
  have 1: "fst (RemoveBrokers ex_ok [''6'', ''9'']) =
       (Some \<lparr>TaskID = [], StartedAt = [], State = CruiseControlTaskCompleted, Err = []\<rparr>, None)
   \<and> submissions (snd (RemoveBrokers ex_ok [''6'', ''9''])) = []"
    by simp
  from RemoveBrokers_eligible [OF n(2) ok e2] a5
  have 2: "submissions (snd (RemoveBrokers ex_ok [''6'', ''5''])) =
       [CallRemoveBroker \<lparr>AllowCapacityEstimation = True, DataFrom = ProposalDataSourceValidWindows,
          UseReadyDefaultGoals = True, BrokerIDs = [5]\<rparr>]"
    by (simp add: Atoi_5)
  from RemoveBrokers_eligible [OF n(3) ok e3] ax
  have 3: "fst (RemoveBrokers ex_ok [''x'']) = (None, Some (NumError ''Atoi'' ''x'' ErrSyntax))
   \<and> submissions (snd (RemoveBrokers ex_ok [''x''])) = []"
    by (simp add: Atoi_x)
  from n ok c e1 e2 e3 a5 ax 1 2 3 show ?thesis by blast
qed

theorem RemoveBrokers_non_numeric_eligible:
  "client_KafkaClusterState ex_ok = (ex_state, None)
   \<and> ReplicaCountByBrokerID ex_state ''x'' = Some 2
   \<and> RemoveBrokers ex_ok [''x''] =
       ((None, Some (NumError ''Atoi'' ''x'' ErrSyntax)),
        [CallKafkaClusterState,
         LogError (Some (NumError ''Atoi'' ''x'' ErrSyntax))
           ''failed to cast broker ID from string to integer'' [(''broker_id'', LStr ''x'')]])"
proof -
  have "client_KafkaClusterState ex_ok = (ex_state, None)"
    by (simp add: ex_ok_def)
  moreover have "ReplicaCountByBrokerID ex_state ''x'' = Some 2"
    by (simp add: ex_state_def)
  moreover have "RemoveBrokers ex_ok [''x''] =
       ((None, Some (NumError ''Atoi'' ''x'' ErrSyntax)),
        [CallKafkaClusterState,
         LogError (Some (NumError ''Atoi'' ''x'' ErrSyntax))
           ''failed to cast broker ID from string to integer'' [(''broker_id'', LStr ''x'')]])"
    by (simp add: RemoveBrokers_def ex_ok_def ex_state_def Atoi_x Let_def)
  ultimately show ?thesis by blast
qed

subsection \<open>RebalanceDisks\<close>

text \<open>
  C6 (as amended): for every call of \<open>RebalanceDisks\<close> whose cluster-load query succeeds,
  a disk of a requested broker qualifies exactly when its reported replica count is at
  most zero and it is not marked dead.  When no requested broker has a qualifying disk,
  the operation returns a result in state Completed, no error, and submits nothing.
  Otherwise it makes exactly one rebalance submission: the destination brokers of the
  request are the requested brokers that have a qualifying disk, and the request excludes
  recently removed brokers.
\<close>

theorem RebalanceDisks_empty_disks:
  assumes ok: "client_KafkaClusterLoad cc = (resp, None)"
  shows "(\<not> (\<exists>b \<in> set (Brokers resp). broker_requested brokerIDs b
                \<and> (\<exists>(disk, d) \<in> set (DiskState b). disk_qualifies d)) \<longrightarrow>
            fst (RebalanceDisks cc brokerIDs) =
              (Some \<lparr>TaskID = [], StartedAt = [], State = CruiseControlTaskCompleted, Err = []\<rparr>, None)
          \<and> submissions (snd (RebalanceDisks cc brokerIDs)) = [])
       \<and> ((\<exists>b \<in> set (Brokers resp). broker_requested brokerIDs b
                \<and> (\<exists>(disk, d) \<in> set (DiskState b). disk_qualifies d)) \<longrightarrow>
            (\<exists>dest. submissions (snd (RebalanceDisks cc brokerIDs)) =
                [CallRebalance \<lparr>AllowCapacityEstimation = True, DataFrom = ProposalDataSourceValidWindows,
                   UseReadyDefaultGoals = True, DestinationBrokerIDs = dest,
                   ExcludeRecentlyRemovedBrokers = True\<rparr>]
              \<and> set dest = {Broker b | b. b \<in> set (Brokers resp) \<and> broker_requested brokerIDs b
                               \<and> (\<exists>(disk, d) \<in> set (DiskState b). disk_qualifies d)}))"
proof -
  define targets where "targets = concat (map (\<lambda>b. replicate (qualifying_disks b) (Broker b))
                     (filter (broker_requested brokerIDs) (Brokers resp)))"
  have s: "set targets = {Broker b | b. b \<in> set (Brokers resp) \<and> broker_requested brokerIDs b
                               \<and> (\<exists>(disk, d) \<in> set (DiskState b). disk_qualifies d)}"
    unfolding targets_def rebalance_targets_set qualifying_disks_pos by auto
  have e: "(targets = []) = (\<not> (\<exists>b \<in> set (Brokers resp). broker_requested brokerIDs b
                \<and> (\<exists>(disk, d) \<in> set (DiskState b). disk_qualifies d)))"
  proof -
    have "(targets = []) = (set targets = {})" by simp
    also have "\<dots> = (\<not> (\<exists>b \<in> set (Brokers resp). broker_requested brokerIDs b
                \<and> (\<exists>(disk, d) \<in> set (DiskState b). disk_qualifies d)))"
      unfolding s by blast
    finally show ?thesis .
  qed
  note r = RebalanceDisks_ok [OF ok targets_def]
  show ?thesis
  proof (intro conjI impI)
    assume "\<not> (\<exists>b \<in> set (Brokers resp). broker_requested brokerIDs b
                \<and> (\<exists>(disk, d) \<in> set (DiskState b). disk_qualifies d))"
    with e have "targets = []" by simp
    with r show "fst (RebalanceDisks cc brokerIDs) =
              (Some \<lparr>TaskID = [], StartedAt = [], State = CruiseControlTaskCompleted, Err = []\<rparr>, None)"
      and "submissions (snd (RebalanceDisks cc brokerIDs)) = []" by simp_all
  next
    assume "\<exists>b \<in> set (Brokers resp). broker_requested brokerIDs b
                \<and> (\<exists>(disk, d) \<in> set (DiskState b). disk_qualifies d)"
    with e have "targets \<noteq> []" by simp
    with r have "submissions (snd (RebalanceDisks cc brokerIDs)) =
                [CallRebalance \<lparr>AllowCapacityEstimation = True, DataFrom = ProposalDataSourceValidWindows,
                   UseReadyDefaultGoals = True, DestinationBrokerIDs = targets,
                   ExcludeRecentlyRemovedBrokers = True\<rparr>]" by simp
    with s show "\<exists>dest. submissions (snd (RebalanceDisks cc brokerIDs)) =
                [CallRebalance \<lparr>AllowCapacityEstimation = True, DataFrom = ProposalDataSourceValidWindows,
                   UseReadyDefaultGoals = True, DestinationBrokerIDs = dest,
                   ExcludeRecentlyRemovedBrokers = True\<rparr>]
              \<and> set dest = {Broker b | b. b \<in> set (Brokers resp) \<and> broker_requested brokerIDs b
                               \<and> (\<exists>(disk, d) \<in> set (DiskState b). disk_qualifies d)}"
      by (intro exI [of _ targets]) simp
  qed
qed

theorem RebalanceDisks_empty_disks_witness:
  "client_KafkaClusterLoad ex_ok = (ex_load, None)
   \<and> \<not> (\<exists>b \<in> set (Brokers ex_load). broker_requested [''1''] b
            \<and> (\<exists>(disk, d) \<in> set (DiskState b). disk_qualifies d))
   \<and> fst (RebalanceDisks ex_ok [''1'']) =
       (Some \<lparr>TaskID = [], StartedAt = [], State = CruiseControlTaskCompleted, Err = []\<rparr>, None)
   \<and> submissions (snd (RebalanceDisks ex_ok [''1''])) = []
   \<and> (\<exists>b \<in> set (Brokers ex_load). broker_requested [''2''] b
            \<and> (\<exists>(disk, d) \<in> set (DiskState b). disk_qualifies d))
   \<and> (\<exists>dest. submissions (snd (RebalanceDisks ex_ok [''2''])) =
          [CallRebalance \<lparr>AllowCapacityEstimation = True, DataFrom = ProposalDataSourceValidWindows,
             UseReadyDefaultGoals = True, DestinationBrokerIDs = dest,
             ExcludeRecentlyRemovedBrokers = True\<rparr>]
        \<and> set dest = {Broker b | b. b \<in> set (Brokers ex_load) \<and> broker_requested [''2''] b
                         \<and> (\<exists>(disk, d) \<in> set (DiskState b). disk_qualifies d)})"
proof -
  have ok: "client_KafkaClusterLoad ex_ok = (ex_load, None)"
    by (simp add: ex_ok_def)
  have n: "\<not> (\<exists>b \<in> set (Brokers ex_load). broker_requested [''1''] b
            \<and> (\<exists>(disk, d) \<in> set (DiskState b). disk_qualifies d))"
    by (simp add: ex_load_def broker_requested_def disk_qualifies_def Itoa_1 Itoa_2 Itoa_3)
  have y: "\<exists>b \<in> set (Brokers ex_load). broker_requested [''2''] b
            \<and> (\<exists>(disk, d) \<in> set (DiskState b). disk_qualifies d)"
    by (simp add: ex_load_def broker_requested_def disk_qualifies_def Itoa_1 Itoa_2 Itoa_3)
  from RebalanceDisks_empty_disks [OF ok, of "[''1'']"] n
  have 1: "fst (RebalanceDisks ex_ok [''1'']) =
       (Some \<lparr>TaskID = [], StartedAt = [], State = CruiseControlTaskCompleted, Err = []\<rparr>, None)
   \<and> submissions (snd (RebalanceDisks ex_ok [''1''])) = []"
    by blast
  from RebalanceDisks_empty_disks [OF ok, of "[''2'']"] y
  have 2: "\<exists>dest. submissions (snd (RebalanceDisks ex_ok [''2''])) =
          [CallRebalance \<lparr>AllowCapacityEstimation = True, DataFrom = ProposalDataSourceValidWindows,
             UseReadyDefaultGoals = True, DestinationBrokerIDs = dest,
             ExcludeRecentlyRemovedBrokers = True\<rparr>]
        \<and> set dest = {Broker b | b. b \<in> set (Brokers ex_load) \<and> broker_requested [''2''] b
                         \<and> (\<exists>(disk, d) \<in> set (DiskState b). disk_qualifies d)}"
    by blast
  from ok n y 1 2 show ?thesis by blast
qed

theorem RebalanceDisks_negative_count:
  "client_KafkaClusterLoad ex_negative = (ex_load_negative, None)
   \<and> length (Brokers ex_load_negative) = 1
   \<and> Itoa (sint (Broker (Brokers ex_load_negative ! 0))) = ''2''
   \<and> length (DiskState (Brokers ex_load_negative ! 0)) = 1
   \<and> sint (NumReplicas (snd (DiskState (Brokers ex_load_negative ! 0) ! 0))) = - 1
   \<and> \<not> Dead (DiskMB (snd (DiskState (Brokers ex_load_negative ! 0) ! 0)))
   \<and> RebalanceDisks ex_negative [''2''] =
       ((Some \<lparr>TaskID = ''task-1'', StartedAt = ''Sun, 01 Nov 2026 10:00:00 GMT'',
               State = CruiseControlTaskActive, Err = []\<rparr>, None),
        [CallKafkaClusterLoad,
         CallRebalance \<lparr>AllowCapacityEstimation = True, DataFrom = ProposalDataSourceValidWindows,
            UseReadyDefaultGoals = True, DestinationBrokerIDs = [2],
            ExcludeRecentlyRemovedBrokers = True\<rparr>])"
proof -
  have "client_KafkaClusterLoad ex_negative = (ex_load_negative, None)"
    by (simp add: ex_negative_def)
  moreover have "length (Brokers ex_load_negative) = 1"
    and "Itoa (sint (Broker (Brokers ex_load_negative ! 0))) = ''2''"
    and "length (DiskState (Brokers ex_load_negative ! 0)) = 1"
    and "sint (NumReplicas (snd (DiskState (Brokers ex_load_negative ! 0) ! 0))) = - 1"
    and "\<not> Dead (DiskMB (snd (DiskState (Brokers ex_load_negative ! 0) ! 0)))"
    by (simp_all add: ex_load_negative_def Itoa_2)
  moreover have "RebalanceDisks ex_negative [''2''] =
       ((Some \<lparr>TaskID = ''task-1'', StartedAt = ''Sun, 01 Nov 2026 10:00:00 GMT'',
               State = CruiseControlTaskActive, Err = []\<rparr>, None),
        [CallKafkaClusterLoad,
         CallRebalance \<lparr>AllowCapacityEstimation = True, DataFrom = ProposalDataSourceValidWindows,
            UseReadyDefaultGoals = True, DestinationBrokerIDs = [2],
            ExcludeRecentlyRemovedBrokers = True\<rparr>])"
    by (simp add: RebalanceDisks_def ex_negative_def ex_ok_def ex_load_negative_def Itoa_2
          Let_def ex_task_def)
  ultimately show ?thesis by blast
qed

text \<open>
  C10 (as amended): for every call of \<open>RebalanceDisks\<close> whose cluster-load query
  succeeds, a requested broker whose disks with a reported replica count of at most zero
  and not marked dead number \<open>n > 1\<close> is appended once for each of them: the one
  rebalance request that is submitted lists the ID of that broker exactly \<open>n\<close> times
  among its destination brokers.
\<close>

theorem RebalanceDisks_duplicates:
  assumes ok: "client_KafkaClusterLoad cc = (resp, None)"
    and req: "Itoa (sint i) \<in> set brokerIDs"
    and n: "n = (\<Sum>b\<leftarrow>filter (\<lambda>b. Broker b = i) (Brokers resp). qualifying_disks b)"
    and many: "1 < n"
  shows "\<exists>dest. submissions (snd (RebalanceDisks cc brokerIDs)) =
            [CallRebalance \<lparr>AllowCapacityEstimation = True, DataFrom = ProposalDataSourceValidWindows,
               UseReadyDefaultGoals = True, DestinationBrokerIDs = dest,
               ExcludeRecentlyRemovedBrokers = True\<rparr>]
          \<and> count_list dest i = n"
proof -
  define targets where "targets = concat (map (\<lambda>b. replicate (qualifying_disks b) (Broker b))
                     (filter (broker_requested brokerIDs) (Brokers resp)))"
  have f: "filter (\<lambda>b. Broker b = i) (filter (broker_requested brokerIDs) (Brokers resp)) =
           filter (\<lambda>b. Broker b = i) (Brokers resp)"
    using req by (auto simp: broker_requested_def intro: filter_cong)
  have c: "count_list targets i = n"
    unfolding targets_def rebalance_targets_count f n ..
  with many have "targets \<noteq> []" by auto
  with RebalanceDisks_ok [OF ok targets_def] c show ?thesis by blast
qed

theorem RebalanceDisks_duplicates_witness:
  "client_KafkaClusterLoad ex_ok = (ex_load, None)
   \<and> Itoa (sint (2 :: int32)) \<in> set [''2'']
   \<and> (2 :: nat) = (\<Sum>b\<leftarrow>filter (\<lambda>b. Broker b = 2) (Brokers ex_load). qualifying_disks b)
   \<and> (1 :: nat) < 2
   \<and> (\<exists>dest. submissions (snd (RebalanceDisks ex_ok [''2''])) =
         [CallRebalance \<lparr>AllowCapacityEstimation = True, DataFrom = ProposalDataSourceValidWindows,
            UseReadyDefaultGoals = True, DestinationBrokerIDs = dest,
            ExcludeRecentlyRemovedBrokers = True\<rparr>]
       \<and> count_list dest 2 = 2)"
proof -
  have ok: "client_KafkaClusterLoad ex_ok = (ex_load, None)"
    by (simp add: ex_ok_def)
  have r: "Itoa (sint (2 :: int32)) \<in> set [''2'']"
    by (simp add: Itoa_2)
  have n: "(2 :: nat) = (\<Sum>b\<leftarrow>filter (\<lambda>b. Broker b = 2) (Brokers ex_load). qualifying_disks b)"
    by (simp add: ex_load_def qualifying_disks_def disk_qualifies_def)
  have m: "(1 :: nat) < 2" by simp
  from RebalanceDisks_duplicates [OF ok r n m] ok r n m show ?thesis by blast
qed

theorem RebalanceDisks_negative_count_listed:
  "client_KafkaClusterLoad ex_mixed = (ex_load_mixed, None)
   \<and> length (Brokers ex_load_mixed) = 1
   \<and> Broker (Brokers ex_load_mixed ! 0) = 2
   \<and> Itoa (sint (Broker (Brokers ex_load_mixed ! 0))) = ''2''
   \<and> length (DiskState (Brokers ex_load_mixed ! 0)) = 3
   \<and> sint (NumReplicas (snd (DiskState (Brokers ex_load_mixed ! 0) ! 0))) = 0
   \<and> \<not> Dead (DiskMB (snd (DiskState (Brokers ex_load_mixed ! 0) ! 0)))
   \<and> sint (NumReplicas (snd (DiskState (Brokers ex_load_mixed ! 0) ! 1))) = 0
   \<and> \<not> Dead (DiskMB (snd (DiskState (Brokers ex_load_mixed ! 0) ! 1)))
   \<and> sint (NumReplicas (snd (DiskState (Brokers ex_load_mixed ! 0) ! 2))) = - 1
   \<and> submissions (snd (RebalanceDisks ex_mixed [''2''])) =
       [CallRebalance \<lparr>AllowCapacityEstimation = True, DataFrom = ProposalDataSourceValidWindows,
          UseReadyDefaultGoals = True, DestinationBrokerIDs = [2, 2, 2],
          ExcludeRecentlyRemovedBrokers = True\<rparr>]
   \<and> count_list [2, 2, 2] (2 :: int32) = 3"
proof -
  have "client_KafkaClusterLoad ex_mixed = (ex_load_mixed, None)"
    by (simp add: ex_mixed_def)
  moreover have "length (Brokers ex_load_mixed) = 1"
    and "Broker (Brokers ex_load_mixed ! 0) = 2"
    and "Itoa (sint (Broker (Brokers ex_load_mixed ! 0))) = ''2''"
    and "length (DiskState (Brokers ex_load_mixed ! 0)) = 3"
    and "sint (NumReplicas (snd (DiskState (Brokers ex_load_mixed ! 0) ! 0))) = 0"
    and "\<not> Dead (DiskMB (snd (DiskState (Brokers ex_load_mixed ! 0) ! 0)))"
    and "sint (NumReplicas (snd (DiskState (Brokers ex_load_mixed ! 0) ! 1))) = 0"
    and "\<not> Dead (DiskMB (snd (DiskState (Brokers ex_load_mixed ! 0) ! 1)))"
    and "sint (NumReplicas (snd (DiskState (Brokers ex_load_mixed ! 0) ! 2))) = - 1"
    by (simp_all add: ex_load_mixed_def Itoa_2)
  moreover have "submissions (snd (RebalanceDisks ex_mixed [''2''])) =
       [CallRebalance \<lparr>AllowCapacityEstimation = True, DataFrom = ProposalDataSourceValidWindows,
          UseReadyDefaultGoals = True, DestinationBrokerIDs = [2, 2, 2],
          ExcludeRecentlyRemovedBrokers = True\<rparr>]"
    by (simp add: RebalanceDisks_def ex_mixed_def ex_ok_def ex_load_mixed_def Itoa_2
          Let_def submissions_def)
  moreover have "count_list [2, 2, 2] (2 :: int32) = 3" by simp
  ultimately show ?thesis by blast
qed

end
